theory Spec2Isabelle
  imports Main
begin

section \<open>JavaScript strings and regular expressions\<close>

text \<open>
  The component \<^verbatim>\<open>MemberSettings.tsx\<close> works on strings with regular-expression
  literals, \<^verbatim>\<open>String.prototype.includes\<close> and \<^verbatim>\<open>toLowerCase\<close>. A string is a
  \<^typ>\<open>string\<close> (a list of characters). A regular expression is a term of \<open>rexp\<close>,
  and it is run by a backtracking matcher in the order of the ECMAScript matcher: a
  quantifier is greedy, and an iteration that consumes nothing is rejected.

  A character class is a list of single characters and of ranges, compared by character
  code; \<^verbatim>\<open>\d\<close> is the range from \<open>0\<close> to \<open>9\<close>.
\<close>

datatype citem = Ch char | Rng char char

fun in_citem :: "citem \<Rightarrow> char \<Rightarrow> bool" where
  "in_citem (Ch d) c = (c = d)"
| "in_citem (Rng lo hi) c = ((of_char lo :: nat) \<le> of_char c \<and> (of_char c :: nat) \<le> of_char hi)"

definition in_class :: "citem list \<Rightarrow> char \<Rightarrow> bool" where
  "in_class cs c = list_ex (\<lambda>i. in_citem i c) cs"

datatype rexp = Eps | Chars "citem list" | Seq rexp rexp | Star rexp

text \<open>
  \<open>rems r s\<close> lists, in the order the backtracking matcher tries them, what is left of
  \<open>s\<close> after \<open>r\<close> has matched a prefix of it.
\<close>

fun rems :: "rexp \<Rightarrow> string \<Rightarrow> string list" where
  "rems Eps s = [s]"
| "rems (Chars cs) s = (case s of [] \<Rightarrow> [] | c # t \<Rightarrow> if in_class cs c then [t] else [])"
| "rems (Seq a b) s = concat (map (rems b) (rems a s))"
| "rems (Star a) s =
     concat (map (\<lambda>t. if length t < length s then rems (Star a) t else []) (rems a s)) @ [s]"

text \<open>A literal word, \<open>r+\<close>, \<open>r{2,}\<close> and a sequence of terms.\<close>

definition lit :: "string \<Rightarrow> rexp" where
  "lit w = foldr (\<lambda>c r. Seq (Chars [Ch c]) r) w Eps"

definition one_or_more :: "rexp \<Rightarrow> rexp" where
  "one_or_more r = Seq r (Star r)"

definition two_or_more :: "rexp \<Rightarrow> rexp" where
  "two_or_more r = Seq r (Seq r (Star r))"

definition seqs :: "rexp list \<Rightarrow> rexp" where
  "seqs rs = foldr Seq rs Eps"

text \<open>
  A regular-expression literal without flags: its body, and whether it starts with \<open>^\<close>
  and ends with \<open>$\<close>. Without the \<open>m\<close> flag \<open>$\<close> is the end of the input.
\<close>

record regexp =
  anchored_start :: bool
  body :: rexp
  anchored_end :: bool

fun tails :: "string \<Rightarrow> string list" where
  "tails [] = [[]]"
| "tails (c # s) = (c # s) # tails s"

definition ends_ok :: "regexp \<Rightarrow> string \<Rightarrow> bool" where
  "ends_ok re r = (if anchored_end re then r = [] else True)"

text \<open>\<^verbatim>\<open>RegExp.prototype.test\<close>: some start position has a match.\<close>

definition test :: "regexp \<Rightarrow> string \<Rightarrow> bool" where
  "test re s =
     list_ex (\<lambda>start. list_ex (ends_ok re) (rems (body re) start))
       (if anchored_start re then [s] else tails s)"

text \<open>
  \<^verbatim>\<open>s.match(/^(g)rest$/)\<close> followed by \<^verbatim>\<open>match ? match[1] : null\<close>: the first way of
  matching the group, in the matcher's order, after which the rest matches up to the end
  of the input; the group then holds what it consumed.
\<close>

definition match_group1 :: "rexp \<Rightarrow> rexp \<Rightarrow> string \<Rightarrow> string option" where
  "match_group1 g rest s =
     (case find (\<lambda>t. list_ex (\<lambda>r. r = []) (rems rest t)) (rems g s) of
        None \<Rightarrow> None
      | Some t \<Rightarrow> Some (take (length s - length t) s))"

text \<open>\<^verbatim>\<open>String.prototype.includes\<close>.\<close>

fun starts_with :: "string \<Rightarrow> string \<Rightarrow> bool" where
  "starts_with s [] = True"
| "starts_with [] (c # w) = False"
| "starts_with (d # s) (c # w) = (d = c \<and> starts_with s w)"

definition includes_str :: "string \<Rightarrow> string \<Rightarrow> bool" where
  "includes_str s needle = list_ex (\<lambda>t. starts_with t needle) (tails s)"

text \<open>
  \<^verbatim>\<open>toLowerCase\<close> on the letters \<open>A\<close> to \<open>Z\<close>. The component applies it only to a
  string that has passed \<open>emailRegex\<close>, all of whose characters are ASCII.
\<close>

definition lower_char :: "char \<Rightarrow> char" where
  "lower_char c =
     (if (of_char CHR ''A'' :: nat) \<le> of_char c \<and> (of_char c :: nat) \<le> of_char CHR ''Z''
      then char_of (of_char c + (32 :: nat)) else c)"

definition toLowerCase :: "string \<Rightarrow> string" where
  "toLowerCase s = map lower_char s"

section \<open>The regular expressions of the component\<close>

definition digit :: rexp where
  "digit = Chars [Rng CHR ''0'' CHR ''9'']"

definition local_chars :: rexp where
  "local_chars = Chars [Rng CHR ''a'' CHR ''z'', Rng CHR ''A'' CHR ''Z'', Rng CHR ''0'' CHR ''9'',
     Ch CHR ''.'', Ch CHR ''_'', Ch CHR ''%'', Ch CHR ''+'', Ch CHR ''-'']"

definition domain_chars :: rexp where
  "domain_chars = Chars [Rng CHR ''a'' CHR ''z'', Rng CHR ''A'' CHR ''Z'', Rng CHR ''0'' CHR ''9'',
     Ch CHR ''.'', Ch CHR ''-'']"

definition letter :: rexp where
  "letter = Chars [Rng CHR ''a'' CHR ''z'', Rng CHR ''A'' CHR ''Z'']"

text \<open>\<^verbatim>\<open>/^\d+@gmail\.com$/\<close>\<close>

definition temp_email_re :: regexp where
  "temp_email_re =
     \<lparr>anchored_start = True, body = Seq (one_or_more digit) (lit ''@gmail.com''),
      anchored_end = True\<rparr>"

text \<open>\<^verbatim>\<open>/^[a-zA-Z0-9._%+-]+@[a-zA-Z0-9.-]+\.[a-zA-Z]{2,}$/\<close>\<close>

definition emailRegex :: regexp where
  "emailRegex =
     \<lparr>anchored_start = True,
      body = seqs [one_or_more local_chars, lit ''@'', one_or_more domain_chars, lit ''.'',
                   two_or_more letter],
      anchored_end = True\<rparr>"

definition starts_re :: "string \<Rightarrow> regexp" where
  "starts_re w = \<lparr>anchored_start = True, body = lit w, anchored_end = False\<rparr>"

definition contains_re :: "string \<Rightarrow> regexp" where
  "contains_re w = \<lparr>anchored_start = False, body = lit w, anchored_end = False\<rparr>"

text \<open>
  \<^verbatim>\<open>/^test@/\<close>, \<^verbatim>\<open>/^fake@/\<close>, \<^verbatim>\<open>/^temp@/\<close>, \<^verbatim>\<open>/@test\./\<close>, \<^verbatim>\<open>/@fake\./\<close>,
  \<^verbatim>\<open>/@example\./\<close>, each with its message.
\<close>

definition invalidPatterns :: "(regexp \<times> string) list" where
  "invalidPatterns =
     [(starts_re ''test@'', ''Please use your real email address''),
      (starts_re ''fake@'', ''Please use your real email address''),
      (starts_re ''temp@'', ''Please use your real email address''),
      (contains_re ''@test.'', ''Please use a real domain''),
      (contains_re ''@fake.'', ''Please use a real domain''),
      (contains_re ''@example.'', ''Please use a real domain'')]"

definition isTemporaryEmail :: "string \<Rightarrow> bool" where
  "isTemporaryEmail email = test temp_email_re email"

definition extractMemberIdFromTempEmail :: "string \<Rightarrow> string option" where
  "extractMemberIdFromTempEmail email = match_group1 (one_or_more digit) (lit ''@gmail.com'') email"

section \<open>Data of the component\<close>

text \<open>
  Modelled from the spec: the \<open>Member\<close> type, imported from \<^verbatim>\<open>@/types\<close>, is not
  among the sources. The spec gives a member an identifier, an email, a verification flag
  and creation and update timestamps; these are the fields the component reads (the field
  \<^verbatim>\<open>id\<close> is \<open>id_m\<close> here).
\<close>

record member =
  id_m :: string
  email :: string
  is_verified :: bool
  created_at :: string
  updated_at :: string

text \<open>
  A thrown or returned error object: the component reads only \<^verbatim>\<open>error.message\<close>,
  which may be undefined.
\<close>

datatype js_error = Error (message: "string option")

text \<open>An awaited call either returns a value or throws.\<close>

datatype 'a outcome = Returns 'a | Throws js_error

text \<open>
  The objects \<^verbatim>\<open>db\<close>, \<^verbatim>\<open>auth\<close> and \<^verbatim>\<open>supabase\<close> come from \<^verbatim>\<open>@/lib/supabase\<close>,
  which is not among the sources, so what they answer is a parameter of every handler: the
  backend (\<^verbatim>\<open>db.members.update\<close> returns \<^verbatim>\<open>{data, error}\<close>), the auth provider (each
  call returns \<^verbatim>\<open>{error}\<close>), the parent's callback \<^verbatim>\<open>onMemberUpdate\<close> and
  \<^verbatim>\<open>window.location.origin\<close>. Each of the calls may also throw.
\<close>

record env =
  db_members_update :: "string \<Rightarrow> string \<Rightarrow> (member option \<times> js_error option) outcome"
  supabase_auth_resetPasswordForEmail :: "string \<Rightarrow> string \<Rightarrow> js_error option outcome"
  auth_updateEmail :: "string \<Rightarrow> js_error option outcome"
  auth_resetPassword :: "string \<Rightarrow> js_error option outcome"
  onMemberUpdate :: "member \<Rightarrow> unit outcome"
  origin :: string

datatype status = Idle | Pending | Success | Failed

record validation =
  isValid :: bool
  message_v :: string

text \<open>The component's local state (\<^verbatim>\<open>useState\<close>); \<open>Failed\<close> is the status \<^verbatim>\<open>'error'\<close>.\<close>

record state =
  newEmail :: string
  emailValidation :: "validation option"
  emailUpdateLoading :: bool
  passwordResetLoading :: bool
  emailUpdateStatus :: status
  updatedEmail :: string

datatype toast_variant = Destructive

record toast =
  title :: string
  description :: string
  variant :: "toast_variant option"

text \<open>
  The lines written by \<^verbatim>\<open>console.log\<close> and \<^verbatim>\<open>console.error\<close> in the two handlers,
  one constructor for each call, with the value it prints.
\<close>

datatype console =
    Handling_temporary_email_update
  | Extracted_member_id "string option"
  | Member_email_updated "member option"
  | Password_reset_failed "string option"
  | Password_reset_sent
  | Reset_setup_failed js_error
  | Database_update_failed js_error
  | Handling_regular_email_update
  | Email_update_error js_error
  | Password_reset_error js_error

text \<open>
  Everything a handler does, in the order it does it: the state setters it calls, the
  toasts it shows, its calls to the backend, to the auth provider and to the parent, and
  what it writes to the console. A handler reads the state and the props of the render it
  was created in, so a run is a function from them, and from the answers of the
  surroundings, to the list of its events; the setters take effect on the state after the
  run. The setters, \<^verbatim>\<open>toast\<close> and the console do not throw.
\<close>

datatype event =
    SetNewEmail string
  | SetEmailValidation "validation option"
  | SetEmailUpdateLoading bool
  | SetPasswordResetLoading bool
  | SetEmailUpdateStatus status
  | SetUpdatedEmail string
  | Toast toast
  | Call_db_members_update string string
  | Call_resetPasswordForEmail string string
  | Call_auth_updateEmail string
  | Call_auth_resetPassword string
  | Call_onMemberUpdate member
  | Console console

fun apply_event :: "state \<Rightarrow> event \<Rightarrow> state" where
  "apply_event st (SetNewEmail e) = st\<lparr>newEmail := e\<rparr>"
| "apply_event st (SetEmailValidation v) = st\<lparr>emailValidation := v\<rparr>"
| "apply_event st (SetEmailUpdateLoading b) = st\<lparr>emailUpdateLoading := b\<rparr>"
| "apply_event st (SetPasswordResetLoading b) = st\<lparr>passwordResetLoading := b\<rparr>"
| "apply_event st (SetEmailUpdateStatus x) = st\<lparr>emailUpdateStatus := x\<rparr>"
| "apply_event st (SetUpdatedEmail e) = st\<lparr>updatedEmail := e\<rparr>"
| "apply_event st (Toast t) = st"
| "apply_event st (Call_db_members_update i e) = st"
| "apply_event st (Call_resetPasswordForEmail e r) = st"
| "apply_event st (Call_auth_updateEmail e) = st"
| "apply_event st (Call_auth_resetPassword e) = st"
| "apply_event st (Call_onMemberUpdate m) = st"
| "apply_event st (Console c) = st"

definition state_after :: "state \<Rightarrow> event list \<Rightarrow> state" where
  "state_after st evs = foldl apply_event st evs"

definition initial_state :: state where
  "initial_state =
     \<lparr>newEmail = [], emailValidation = None, emailUpdateLoading = False,
      passwordResetLoading = False, emailUpdateStatus = Idle, updatedEmail = []\<rparr>"

definition error_toast :: "string \<Rightarrow> event" where
  "error_toast d = Toast \<lparr>title = ''Error'', description = d, variant = Some Destructive\<rparr>"

text \<open>\<^verbatim>\<open>error.message?.includes(needle)\<close>: undefined, hence falsy, without a message.\<close>

definition message_includes :: "js_error \<Rightarrow> string \<Rightarrow> bool" where
  "message_includes error needle =
     (case message error of None \<Rightarrow> False | Some m \<Rightarrow> includes_str m needle)"

text \<open>
  \<^verbatim>\<open>else if (error.message) errorMessage = error.message\<close> after a default: a message
  that is undefined or empty is falsy and leaves the default.
\<close>

definition message_or :: "js_error \<Rightarrow> string \<Rightarrow> string" where
  "message_or error d = (case message error of None \<Rightarrow> d | Some m \<Rightarrow> if m = [] then d else m)"

section \<open>validateEmailFormat and handleEmailChange\<close>

fun first_invalid :: "(regexp \<times> string) list \<Rightarrow> string \<Rightarrow> string option" where
  "first_invalid [] s = None"
| "first_invalid ((pattern, msg) # ps) s = (if test pattern s then Some msg else first_invalid ps s)"

definition validateEmailFormat :: "string \<Rightarrow> event list" where
  "validateEmailFormat e =
     (if e = [] then [SetEmailValidation None]
      else if \<not> test emailRegex e then
        [SetEmailValidation (Some \<lparr>isValid = False, message_v = ''Invalid email format''\<rparr>)]
      else
        (case first_invalid invalidPatterns (toLowerCase e) of
           Some msg \<Rightarrow> [SetEmailValidation (Some \<lparr>isValid = False, message_v = msg\<rparr>)]
         | None \<Rightarrow>
             [SetEmailValidation (Some \<lparr>isValid = True, message_v = ''Valid email format''\<rparr>)]))"

definition handleEmailChange :: "state \<Rightarrow> string \<Rightarrow> event list" where
  "handleEmailChange st e =
     [SetNewEmail e] @ validateEmailFormat e @
     (if emailUpdateStatus st = Failed then [SetEmailUpdateStatus Idle] else [])"

section \<open>handleEmailUpdate\<close>

text \<open>
  \<^verbatim>\<open>!tempMemberId\<close> for a value of type \<^verbatim>\<open>string | null\<close>: null and the empty string
  are falsy.
\<close>

definition falsy :: "string option \<Rightarrow> bool" where
  "falsy v = (case v of None \<Rightarrow> True | Some s \<Rightarrow> s = [])"

definition email_updated_toast :: "string \<Rightarrow> event" where
  "email_updated_toast e =
     Toast \<lparr>title = ''Email Updated Successfully'',
       description = ''Your email has been updated to '' @ e @
         ''. A password setup email has been sent to your new address. Please check your inbox and follow the instructions to complete the setup.'',
       variant = None\<rparr>"

definition verification_sent_toast :: "string \<Rightarrow> event" where
  "verification_sent_toast e =
     Toast \<lparr>title = ''Verification Email Sent'',
       description = ''A verification email has been sent to '' @ e @
         ''. Please check your inbox and click the verification link to confirm your new email address.'',
       variant = None\<rparr>"

text \<open>
  A block that may throw gives its events and, when it throws, the thrown error.

  The inner \<^verbatim>\<open>try\<close> around the password reset: a returned error and a thrown one are
  both written to the console only.
\<close>

definition reset_password_for_new_email :: "env \<Rightarrow> string \<Rightarrow> event list" where
  "reset_password_for_new_email w e =
     Call_resetPasswordForEmail e (origin w @ ''/reset-password'') #
     (case supabase_auth_resetPasswordForEmail w e (origin w @ ''/reset-password'') of
        Returns None \<Rightarrow> [Console Password_reset_sent]
      | Returns (Some resetError) \<Rightarrow> [Console (Password_reset_failed (message resetError))]
      | Throws resetSetupError \<Rightarrow> [Console (Reset_setup_failed resetSetupError)])"

text \<open>The body of the \<^verbatim>\<open>try\<close> around the database update.\<close>

definition database_update_try :: "member \<Rightarrow> env \<Rightarrow> string \<Rightarrow> event list \<times> js_error option" where
  "database_update_try m w e =
     (case db_members_update w (id_m m) e of
        Throws err \<Rightarrow> ([Call_db_members_update (id_m m) e], Some err)
      | Returns (updatedMember, Some updateError) \<Rightarrow>
          ([Call_db_members_update (id_m m) e], Some updateError)
      | Returns (updatedMember, None) \<Rightarrow>
          (let evs =
             [Call_db_members_update (id_m m) e, Console (Member_email_updated updatedMember)] @
             reset_password_for_new_email w e @
             [SetEmailUpdateStatus Pending, SetUpdatedEmail e, email_updated_toast e]
           in case updatedMember of
                None \<Rightarrow> (evs, None)
              | Some um \<Rightarrow>
                  (case onMemberUpdate w um of
                     Returns u \<Rightarrow> (evs @ [Call_onMemberUpdate um], None)
                   | Throws err \<Rightarrow> (evs @ [Call_onMemberUpdate um], Some err))))"

text \<open>The branch for a temporary current email, with its \<^verbatim>\<open>catch (dbError)\<close>.\<close>

definition temporary_email_branch :: "member \<Rightarrow> env \<Rightarrow> string \<Rightarrow> event list \<times> js_error option" where
  "temporary_email_branch m w e =
     (let tempMemberId = extractMemberIdFromTempEmail (email m);
          evs = [Console Handling_temporary_email_update, Console (Extracted_member_id tempMemberId)]
      in if falsy tempMemberId then
           (evs, Some (Error (Some ''Could not extract member ID from temporary email'')))
         else
           (case database_update_try m w e of
              (evs', None) \<Rightarrow> (evs @ evs', None)
            | (evs', Some dbError) \<Rightarrow>
                (evs @ evs' @ [Console (Database_update_failed dbError)],
                 Some (Error (Some ''Failed to update email in database'')))))"

definition regular_email_branch :: "env \<Rightarrow> string \<Rightarrow> event list \<times> js_error option" where
  "regular_email_branch w e =
     (let evs = [Console Handling_regular_email_update, Call_auth_updateEmail e]
      in case auth_updateEmail w e of
           Throws err \<Rightarrow> (evs, Some err)
         | Returns (Some error) \<Rightarrow> (evs, Some error)
         | Returns None \<Rightarrow> (evs @ [SetEmailUpdateStatus Pending, verification_sent_toast e], None))"

text \<open>The outer \<^verbatim>\<open>try\<close> block.\<close>

definition email_update_try :: "member \<Rightarrow> env \<Rightarrow> string \<Rightarrow> event list \<times> js_error option" where
  "email_update_try m w e =
     (case (if isTemporaryEmail (email m) then temporary_email_branch m w e
            else regular_email_branch w e) of
        (evs, None) \<Rightarrow> (evs @ [SetNewEmail [], SetEmailValidation None], None)
      | (evs, Some err) \<Rightarrow> (evs, Some err))"

text \<open>The message computed in the outer \<^verbatim>\<open>catch\<close> block.\<close>

definition email_error_message :: "member \<Rightarrow> js_error \<Rightarrow> string" where
  "email_error_message m error =
     (if isTemporaryEmail (email m) then
        (if message_includes error ''extract member ID'' then
           ''Could not process temporary email. Please contact support.''
         else if message_includes error ''database'' then
           ''Database update failed. Please contact support.''
         else if message_includes error ''already exists'' \<or> message_includes error ''taken'' then
           ''This email address is already in use. Please choose a different email.''
         else ''Failed to update temporary email. Please contact support if the issue persists.'')
      else
        (if message_includes error ''invalid'' then
           ''The email address format is not accepted. Please use a different email address.''
         else if message_includes error ''already exists'' \<or> message_includes error ''taken'' then
           ''This email address is already in use. Please choose a different email.''
         else if message_includes error ''rate limit'' then
           ''Too many requests. Please wait a few minutes before trying again.''
         else if message_includes error ''network'' \<or> message_includes error ''connection'' then
           ''Network error. Please check your connection and try again.''
         else message_or error ''Failed to update email. Please try again.''))"

definition email_update_catch :: "member \<Rightarrow> js_error \<Rightarrow> event list" where
  "email_update_catch m error =
     [Console (Email_update_error error), SetEmailUpdateStatus Failed,
      error_toast (email_error_message m error)]"

definition handleEmailUpdate :: "member \<Rightarrow> env \<Rightarrow> state \<Rightarrow> event list" where
  "handleEmailUpdate m w st =
     (if newEmail st = [] \<or> newEmail st = email m then
        [error_toast ''Please enter a new email address'']
      else if \<not> test emailRegex (newEmail st) then
        [error_toast ''Please enter a valid email address'']
      else
        [SetEmailUpdateLoading True, SetEmailUpdateStatus Idle] @
        (case email_update_try m w (newEmail st) of
           (evs, None) \<Rightarrow> evs
         | (evs, Some error) \<Rightarrow> evs @ email_update_catch m error) @
        [SetEmailUpdateLoading False])"

section \<open>handlePasswordReset\<close>

definition reset_error_message :: "js_error \<Rightarrow> string" where
  "reset_error_message error =
     (if message_includes error ''rate limit'' then
        ''Too many requests. Please wait a few minutes before trying again.''
      else if message_includes error ''not found'' \<or> message_includes error ''invalid'' then
        ''Email address not found. Please contact support.''
      else message_or error ''Failed to send password reset email. Please try again.'')"

definition password_reset_catch :: "js_error \<Rightarrow> event list" where
  "password_reset_catch error =
     [Console (Password_reset_error error), error_toast (reset_error_message error)]"

definition reset_sent_toast :: "string \<Rightarrow> event" where
  "reset_sent_toast e =
     Toast \<lparr>title = ''Password Reset Email Sent'',
       description = ''A password reset email has been sent to '' @ e @
         ''. Please check your inbox and follow the instructions to reset your password.'',
       variant = None\<rparr>"

definition handlePasswordReset :: "member \<Rightarrow> env \<Rightarrow> event list" where
  "handlePasswordReset m w =
     (if email m = [] then [error_toast ''No email address found for your account'']
      else
        [SetPasswordResetLoading True, Call_auth_resetPassword (email m)] @
        (case auth_resetPassword w (email m) of
           Throws error \<Rightarrow> password_reset_catch error
         | Returns (Some error) \<Rightarrow> password_reset_catch error
         | Returns None \<Rightarrow> [reset_sent_toast (email m)]) @
        [SetPasswordResetLoading False])"

section \<open>The buttons\<close>

text \<open>
  \<^verbatim>\<open>disabled={emailUpdateLoading || !newEmail || emailValidation?.isValid === false}\<close>
\<close>

definition update_button_disabled :: "state \<Rightarrow> bool" where
  "update_button_disabled st =
     (emailUpdateLoading st \<or> newEmail st = [] \<or>
      (case emailValidation st of None \<Rightarrow> False | Some v \<Rightarrow> isValid v = False))"

text \<open>What the user can do; a disabled button does nothing, the Reset button is
  rendered only in the status \<^verbatim>\<open>'error'\<close>.\<close>

datatype action =
    Type_email string
  | Click_update member env
  | Click_reset
  | Click_change_password member env

fun handle :: "state \<Rightarrow> action \<Rightarrow> event list" where
  "handle st (Type_email e) = (if emailUpdateLoading st then [] else handleEmailChange st e)"
| "handle st (Click_update m w) =
     (if update_button_disabled st then [] else handleEmailUpdate m w st)"
| "handle st Click_reset =
     (if emailUpdateStatus st = Failed then
        [SetEmailUpdateStatus Idle, SetNewEmail [], SetEmailValidation None, SetUpdatedEmail []]
      else [])"
| "handle st (Click_change_password m w) =
     (if passwordResetLoading st then [] else handlePasswordReset m w)"

text \<open>A session: the events of a sequence of actions, from a state.\<close>

fun session :: "state \<Rightarrow> action list \<Rightarrow> event list" where
  "session st [] = []"
| "session st (a # as) = handle st a @ session (state_after st (handle st a)) as"

section \<open>Properties of events and states\<close>

text \<open>
  An update call for an address: the backend update, the provider's email update or the
  password-setup mail, with that address as the new email.
\<close>

fun is_update_call_for :: "string \<Rightarrow> event \<Rightarrow> bool" where
  "is_update_call_for e (Call_db_members_update i x) = (x = e)"
| "is_update_call_for e (Call_auth_updateEmail x) = (x = e)"
| "is_update_call_for e (Call_resetPasswordForEmail x r) = (x = e)"
| "is_update_call_for e ev = False"

text \<open>The setters of the input field and of its validation.\<close>

fun touches_input :: "event \<Rightarrow> bool" where
  "touches_input (SetNewEmail e) = True"
| "touches_input (SetEmailValidation v) = True"
| "touches_input ev = False"

text \<open>The validation shown is the one of the address in the input field.\<close>

definition input_validated :: "state \<Rightarrow> bool" where
  "input_validated st = (validateEmailFormat (newEmail st) = [SetEmailValidation (emailValidation st)])"

section \<open>Example inputs\<close>

definition member_temporary :: member where
  "member_temporary =
     \<lparr>id_m = ''7f3a'', email = ''12345@gmail.com'', is_verified = False,
      created_at = ''2024-01-01'', updated_at = ''2024-01-01''\<rparr>"

definition member_regular :: member where
  "member_regular =
     \<lparr>id_m = ''9c1e'', email = ''old.address@mail.org'', is_verified = True,
      created_at = ''2024-01-01'', updated_at = ''2024-02-01''\<rparr>"

definition member_without_email :: member where
  "member_without_email = member_regular\<lparr>email := []\<rparr>"

text \<open>Surroundings in which every call succeeds.\<close>

definition env_accepting :: env where
  "env_accepting =
     \<lparr>db_members_update = (\<lambda>i e. Returns (Some (member_temporary\<lparr>id_m := i, email := e\<rparr>), None)),
      supabase_auth_resetPasswordForEmail = (\<lambda>e r. Returns None),
      auth_updateEmail = (\<lambda>e. Returns None),
      auth_resetPassword = (\<lambda>e. Returns None),
      onMemberUpdate = (\<lambda>m. Returns ()),
      origin = ''https://fitgym.app''\<rparr>"

text \<open>The state after a valid address has been typed into the fresh form.\<close>

definition state_typed :: "string \<Rightarrow> state" where
  "state_typed e =
     initial_state\<lparr>newEmail := e,
       emailValidation := Some \<lparr>isValid = True, message_v = ''Valid email format''\<rparr>\<rparr>"

text \<open>The backend refuses the update: the address is already used by another member.\<close>

definition env_database_rejects :: env where
  "env_database_rejects =
     env_accepting\<lparr>db_members_update :=
       (\<lambda>i e. Returns (None, Some (Error (Some ''duplicate key value: email already exists''))))\<rparr>"

text \<open>The password-setup mail cannot be sent.\<close>

definition env_reset_fails :: env where
  "env_reset_fails =
     env_accepting\<lparr>supabase_auth_resetPasswordForEmail :=
       (\<lambda>e r. Returns (Some (Error (Some ''Error sending recovery email''))))\<rparr>"

text \<open>The auth provider limits the rate of email updates, and does not know the address
  of a password reset.\<close>

definition env_provider_fails :: env where
  "env_provider_fails =
     env_accepting\<lparr>auth_updateEmail := (\<lambda>e. Returns (Some (Error (Some ''Email rate limit exceeded'')))),
       auth_resetPassword := (\<lambda>e. Throws (Error (Some ''User not found'')))\<rparr>"

text \<open>The state after \<open>test@test.com\<close> has been typed into the fresh form.\<close>

definition state_test_address :: state where
  "state_test_address =
     initial_state\<lparr>newEmail := ''test@test.com'',
       emailValidation :=
         Some \<lparr>isValid = False, message_v = ''Please use your real email address''\<rparr>\<rparr>"

section \<open>The matcher on the component's patterns\<close>

text \<open>
  The equation of \<open>rems\<close> for \<open>Star\<close> calls itself under a condition, so it is
  unfolded by hand; every quantifier of the component is over a character class, for which
  the two equations below compute.
\<close>

declare rems.simps(4) [simp del]

lemma in_class_single: "in_class [Ch c] d = (d = c)"
  by (simp add: in_class_def)

lemma rems_lit: "rems (lit w) s = (if starts_with s w then [drop (length w) s] else [])"
proof (induction w arbitrary: s)
  case Nil
  show ?case by (simp add: lit_def)
next
  case (Cons c w)
  have unfold: "lit (c # w) = Seq (Chars [Ch c]) (lit w)"
    by (simp add: lit_def)
  show ?case
    by (cases s) (simp_all add: unfold in_class_single Cons.IH)
qed

lemma starts_with_append: "starts_with s w \<longleftrightarrow> (\<exists>t. s = w @ t)"
  by (induction s w rule: starts_with.induct) auto

lemma set_tails: "t \<in> set (tails s) \<longleftrightarrow> (\<exists>p. s = p @ t)"
proof (induction s)
  case Nil
  show ?case by simp
next
  case (Cons c s)
  show ?case
  proof
    assume "t \<in> set (tails (c # s))"
    then consider "t = c # s" | "t \<in> set (tails s)" by auto
    then show "\<exists>p. c # s = p @ t"
    proof cases
      case 1
      then have "c # s = [] @ t" by simp
      then show ?thesis by blast
    next
      case 2
      then obtain p where "s = p @ t" using Cons.IH by blast
      then have "c # s = (c # p) @ t" by simp
      then show ?thesis by blast
    qed
  next
    assume "\<exists>p. c # s = p @ t"
    then obtain p where p: "c # s = p @ t" by blast
    show "t \<in> set (tails (c # s))"
    proof (cases p)
      case Nil
      with p have "t = c # s" by simp
      then show ?thesis by simp
    next
      case (Cons d q)
      with p have "s = q @ t" by simp
      then have "t \<in> set (tails s)" using Cons.IH by blast
      then show ?thesis by simp
    qed
  qed
qed

lemma includes_str_iff: "includes_str s needle \<longleftrightarrow> (\<exists>p q. s = p @ needle @ q)"
  unfolding includes_str_def list_ex_iff Bex_def set_tails starts_with_append by blast

lemma rems_star_chars_Nil [simp]: "rems (Star (Chars cs)) [] = [[]]"
  by (subst rems.simps(4)) simp

lemma rems_star_chars_Cons [simp]:
  "rems (Star (Chars cs)) (c # t) =
     (if in_class cs c then rems (Star (Chars cs)) t @ [c # t] else [c # t])"
  by (subst rems.simps(4)) simp

lemma self_in_rems_star: "s \<in> set (rems (Star a) s)"
  by (subst rems.simps(4)) simp

lemma set_rems_star_chars:
  "t \<in> set (rems (Star (Chars cs)) s) \<longleftrightarrow> (\<exists>p. list_all (in_class cs) p \<and> s = p @ t)"
proof (induction s)
  case Nil
  show ?case by (simp add: rems_star_chars_Nil)
next
  case (Cons c s)
  show ?case
  proof
    assume "t \<in> set (rems (Star (Chars cs)) (c # s))"
    then consider "t = c # s" | "in_class cs c" "t \<in> set (rems (Star (Chars cs)) s)"
      by (auto simp add: rems_star_chars_Cons split: if_splits)
    then show "\<exists>p. list_all (in_class cs) p \<and> c # s = p @ t"
    proof cases
      case 1
      then have "list_all (in_class cs) [] \<and> c # s = [] @ t" by simp
      then show ?thesis by blast
    next
      case 2
      then obtain p where "list_all (in_class cs) p" "s = p @ t"
        using Cons.IH by blast
      with 2 have "list_all (in_class cs) (c # p) \<and> c # s = (c # p) @ t" by simp
      then show ?thesis by blast
    qed
  next
    assume "\<exists>p. list_all (in_class cs) p \<and> c # s = p @ t"
    then obtain p where p: "list_all (in_class cs) p" "c # s = p @ t" by blast
    show "t \<in> set (rems (Star (Chars cs)) (c # s))"
    proof (cases p)
      case Nil
      with p have "t = c # s" by simp
      then show ?thesis using self_in_rems_star by simp
    next
      case (Cons d q)
      with p have "d = c" "s = q @ t" "in_class cs c" "list_all (in_class cs) q" by auto
      then have "t \<in> set (rems (Star (Chars cs)) s)" using Cons.IH by blast
      with \<open>in_class cs c\<close> show ?thesis by (simp add: rems_star_chars_Cons)
    qed
  qed
qed

lemma set_rems_one_or_more_chars:
  "t \<in> set (rems (one_or_more (Chars cs)) s) \<longleftrightarrow>
     (\<exists>p. p \<noteq> [] \<and> list_all (in_class cs) p \<and> s = p @ t)"
proof
  assume "t \<in> set (rems (one_or_more (Chars cs)) s)"
  then obtain c u where s: "s = c # u" "in_class cs c" and t: "t \<in> set (rems (Star (Chars cs)) u)"
    by (auto simp add: one_or_more_def split: list.splits if_splits)
  from t obtain p where "list_all (in_class cs) p" "u = p @ t"
    using set_rems_star_chars by blast
  with s have "c # p \<noteq> [] \<and> list_all (in_class cs) (c # p) \<and> s = (c # p) @ t" by simp
  then show "\<exists>p. p \<noteq> [] \<and> list_all (in_class cs) p \<and> s = p @ t" by blast
next
  assume "\<exists>p. p \<noteq> [] \<and> list_all (in_class cs) p \<and> s = p @ t"
  then obtain p where p: "p \<noteq> []" "list_all (in_class cs) p" "s = p @ t" by blast
  then obtain c q where cq: "in_class cs c" "list_all (in_class cs) q" "s = c # q @ t"
    by (cases p) auto
  then have "t \<in> set (rems (Star (Chars cs)) (q @ t))"
    using set_rems_star_chars by blast
  with cq show "t \<in> set (rems (one_or_more (Chars cs)) s)"
    by (simp add: one_or_more_def)
qed

lemma rems_suffix: "t \<in> set (rems r s) \<Longrightarrow> \<exists>p. s = p @ t"
proof (induction r s arbitrary: t rule: rems.induct)
  case (1 s)
  then show ?case by simp
next
  case (2 cs s)
  then show ?case by (cases s) (auto split: if_splits)
next
  case (3 a b s)
  from "3.prems" obtain u where u: "u \<in> set (rems a s)" "t \<in> set (rems b u)" by auto
  from "3.IH"(1) [OF u(1)] obtain p where "s = p @ u" by blast
  moreover from "3.IH"(2) [OF u] obtain q where "u = q @ t" by blast
  ultimately have "s = (p @ q) @ t" by simp
  then show ?case by blast
next
  case (4 a s)
  from "4.prems" have "t = s \<or> (\<exists>u \<in> set (rems a s). length u < length s \<and> t \<in> set (rems (Star a) u))"
    by (subst (asm) rems.simps(4)) (auto split: if_splits)
  then show ?case
  proof
    assume "t = s"
    then have "s = [] @ t" by simp
    then show ?thesis by blast
  next
    assume "\<exists>u \<in> set (rems a s). length u < length s \<and> t \<in> set (rems (Star a) u)"
    then obtain u where u: "u \<in> set (rems a s)" "length u < length s" "t \<in> set (rems (Star a) u)"
      by blast
    from "4.IH"(1) [OF u(1)] obtain p where "s = p @ u" by blast
    moreover from "4.IH"(2) [OF u] obtain q where "u = q @ t" by blast
    ultimately have "s = (p @ q) @ t" by simp
    then show ?thesis by blast
  qed
qed

lemma of_char_cases_digit:
  assumes "48 \<le> (of_char c :: nat)" "(of_char c :: nat) \<le> 57"
  shows "c \<in> set ''0123456789''"
proof -
  from assms have "(of_char c :: nat) \<in> {48, 49, 50, 51, 52, 53, 54, 55, 56, 57}"
    by (simp only: insert_iff empty_iff) arith
  then have "(of_char c :: nat) \<in> of_char ` set ''0123456789''"
    by simp
  then obtain d where "d \<in> set ''0123456789''" "(of_char c :: nat) = of_char d"
    by blast
  then show ?thesis by (simp only: of_char_eq_iff)
qed

lemma in_class_digit: "in_class [Rng CHR ''0'' CHR ''9''] c \<longleftrightarrow> c \<in> set ''0123456789''"
proof
  assume "in_class [Rng CHR ''0'' CHR ''9''] c"
  then have "48 \<le> (of_char c :: nat) \<and> (of_char c :: nat) \<le> 57"
    by (simp add: in_class_def)
  then show "c \<in> set ''0123456789''"
    using of_char_cases_digit by blast
next
  assume "c \<in> set ''0123456789''"
  then show "in_class [Rng CHR ''0'' CHR ''9''] c"
    by (auto simp add: in_class_def)
qed


lemma rems_lit_empty_iff: "list_ex (\<lambda>r. r = []) (rems (lit w) t) \<longleftrightarrow> t = w"
proof -
  have "list_ex (\<lambda>r. r = []) (rems (lit w) t) \<longleftrightarrow> starts_with t w \<and> drop (length w) t = []"
    by (simp add: rems_lit)
  also have "\<dots> \<longleftrightarrow> t = w"
    by (auto simp add: starts_with_append)
  finally show ?thesis .
qed

lemma set_rems_one_or_more_digit:
  "t \<in> set (rems (one_or_more digit) s) \<longleftrightarrow>
     (\<exists>p. p \<noteq> [] \<and> set p \<subseteq> set ''0123456789'' \<and> s = p @ t)"
proof -
  have "list_all (in_class [Rng CHR ''0'' CHR ''9'']) p \<longleftrightarrow> set p \<subseteq> set ''0123456789''" for p
    unfolding list_all_iff subset_eq in_class_digit ..
  then show ?thesis
    by (simp add: digit_def set_rems_one_or_more_chars)
qed

lemma extract_Some_iff:
  "extractMemberIdFromTempEmail s = Some d \<longleftrightarrow>
     d \<noteq> [] \<and> set d \<subseteq> set ''0123456789'' \<and> s = d @ ''@gmail.com''"
proof
  assume "extractMemberIdFromTempEmail s = Some d"
  then obtain t where f: "find (\<lambda>t. list_ex (\<lambda>r. r = []) (rems (lit ''@gmail.com'') t))
      (rems (one_or_more digit) s) = Some t" and d: "d = take (length s - length t) s"
    by (auto simp add: extractMemberIdFromTempEmail_def match_group1_def split: option.splits)
  from f have "t \<in> set (rems (one_or_more digit) s)"
    and "list_ex (\<lambda>r. r = []) (rems (lit ''@gmail.com'') t)"
    by (auto simp add: find_Some_iff in_set_conv_nth)
  then have t: "t = ''@gmail.com''" and "\<exists>p. p \<noteq> [] \<and> set p \<subseteq> set ''0123456789'' \<and> s = p @ t"
    by (simp_all only: rems_lit_empty_iff set_rems_one_or_more_digit)
  then obtain p where p: "p \<noteq> []" "set p \<subseteq> set ''0123456789''" "s = p @ t" by blast
  with d have "d = p" by simp
  with p t show "d \<noteq> [] \<and> set d \<subseteq> set ''0123456789'' \<and> s = d @ ''@gmail.com''" by simp
next
  assume a: "d \<noteq> [] \<and> set d \<subseteq> set ''0123456789'' \<and> s = d @ ''@gmail.com''"
  let ?P = "\<lambda>t. list_ex (\<lambda>r. r = []) (rems (lit ''@gmail.com'') t)"
  from a have "''@gmail.com'' \<in> set (rems (one_or_more digit) s)"
    by (simp only: set_rems_one_or_more_digit) blast
  moreover have "?P ''@gmail.com''" by (simp only: rems_lit_empty_iff)
  ultimately have "find ?P (rems (one_or_more digit) s) \<noteq> None"
    by (simp only: find_None_iff) blast
  then obtain t where f: "find ?P (rems (one_or_more digit) s) = Some t" by blast
  then have "?P t" by (auto simp add: find_Some_iff)
  then have "t = ''@gmail.com''" by (simp only: rems_lit_empty_iff)
  with f a show "extractMemberIdFromTempEmail s = Some d"
    by (simp add: extractMemberIdFromTempEmail_def match_group1_def)
qed

lemma isTemporaryEmail_iff:
  "isTemporaryEmail s \<longleftrightarrow>
     (\<exists>ds. ds \<noteq> [] \<and> set ds \<subseteq> set ''0123456789'' \<and> s = ds @ ''@gmail.com'')"
proof -
  have "isTemporaryEmail s \<longleftrightarrow>
      (\<exists>t \<in> set (rems (one_or_more digit) s). list_ex (\<lambda>r. r = []) (rems (lit ''@gmail.com'') t))"
    by (auto simp add: isTemporaryEmail_def test_def temp_email_re_def ends_ok_def list_ex_iff)
  also have "\<dots> \<longleftrightarrow> ''@gmail.com'' \<in> set (rems (one_or_more digit) s)"
    by (simp only: rems_lit_empty_iff) blast
  finally show ?thesis
    by (simp only: set_rems_one_or_more_digit)
qed

lemma digit_prefix:
  assumes "set d \<subseteq> set ''0123456789''"
  shows "takeWhile (\<lambda>c. c \<in> set ''0123456789'') (d @ ''@gmail.com'') = d"
proof -
  have "takeWhile (\<lambda>c. c \<in> set ''0123456789'') (d @ ''@gmail.com'') =
      d @ takeWhile (\<lambda>c. c \<in> set ''0123456789'') ''@gmail.com''"
    using assms by (intro takeWhile_append2) blast
  then show ?thesis by simp
qed


lemma set_rems_Seq: "t \<in> set (rems (Seq a b) s) \<longleftrightarrow> (\<exists>u \<in> set (rems a s). t \<in> set (rems b u))"
  by auto

lemma set_rems_lit: "t \<in> set (rems (lit w) s) \<longleftrightarrow> s = w @ t"
  by (auto simp add: rems_lit starts_with_append)

lemma set_rems_two_or_more_chars:
  "t \<in> set (rems (two_or_more (Chars cs)) s) \<longleftrightarrow>
     (\<exists>p. 2 \<le> length p \<and> list_all (in_class cs) p \<and> s = p @ t)"
proof -
  have two: "two_or_more (Chars cs) = Seq (Chars cs) (one_or_more (Chars cs))"
    by (simp add: two_or_more_def one_or_more_def)
  show ?thesis
  proof
    assume "t \<in> set (rems (two_or_more (Chars cs)) s)"
    then obtain u where u: "u \<in> set (rems (Chars cs) s)" "t \<in> set (rems (one_or_more (Chars cs)) u)"
      unfolding two set_rems_Seq by blast
    from u(1) obtain c where c: "s = c # u" "in_class cs c"
      by (cases s) (auto split: if_splits)
    from u(2) obtain p where p: "p \<noteq> []" "list_all (in_class cs) p" "u = p @ t"
      unfolding set_rems_one_or_more_chars by blast
    from p(1) have "2 \<le> length (c # p)" by (cases p) simp_all
    with c p have "2 \<le> length (c # p) \<and> list_all (in_class cs) (c # p) \<and> s = (c # p) @ t"
      by simp
    then show "\<exists>p. 2 \<le> length p \<and> list_all (in_class cs) p \<and> s = p @ t" by blast
  next
    assume "\<exists>p. 2 \<le> length p \<and> list_all (in_class cs) p \<and> s = p @ t"
    then obtain p where p: "2 \<le> length p" "list_all (in_class cs) p" "s = p @ t" by blast
    then obtain c q where q: "p = c # q" "q \<noteq> []"
      by (cases p; cases "tl p") auto
    with p have "in_class cs c" "list_all (in_class cs) q" "s = c # q @ t" by auto
    moreover from this q have "t \<in> set (rems (one_or_more (Chars cs)) (q @ t))"
      unfolding set_rems_one_or_more_chars by blast
    ultimately show "t \<in> set (rems (two_or_more (Chars cs)) s)"
      unfolding two set_rems_Seq by simp
  qed
qed

lemma emailRegex_iff:
  "test emailRegex s \<longleftrightarrow>
     (\<exists>name host tld.
        s = name @ ''@'' @ host @ ''.'' @ tld \<and>
        name \<noteq> [] \<and>
        list_all (in_class [Rng CHR ''a'' CHR ''z'', Rng CHR ''A'' CHR ''Z'', Rng CHR ''0'' CHR ''9'',
          Ch CHR ''.'', Ch CHR ''_'', Ch CHR ''%'', Ch CHR ''+'', Ch CHR ''-'']) name \<and>
        host \<noteq> [] \<and>
        list_all (in_class [Rng CHR ''a'' CHR ''z'', Rng CHR ''A'' CHR ''Z'', Rng CHR ''0'' CHR ''9'',
          Ch CHR ''.'', Ch CHR ''-'']) host \<and>
        2 \<le> length tld \<and>
        list_all (in_class [Rng CHR ''a'' CHR ''z'', Rng CHR ''A'' CHR ''Z'']) tld)"
proof -
  have "test emailRegex s \<longleftrightarrow> [] \<in> set (rems (body emailRegex) s)"
    by (auto simp add: test_def emailRegex_def ends_ok_def list_ex_iff)
  also have "\<dots> \<longleftrightarrow>
     (\<exists>u1 u2 u3 u4. u1 \<in> set (rems (one_or_more local_chars) s) \<and>
        u2 \<in> set (rems (lit ''@'') u1) \<and>
        u3 \<in> set (rems (one_or_more domain_chars) u2) \<and>
        u4 \<in> set (rems (lit ''.'') u3) \<and>
        [] \<in> set (rems (two_or_more letter) u4))"
    unfolding emailRegex_def seqs_def by (simp only: regexp.simps foldr.simps o_apply set_rems_Seq) auto
  also have "\<dots> \<longleftrightarrow>
     (\<exists>name host tld.
        s = name @ ''@'' @ host @ ''.'' @ tld \<and>
        name \<noteq> [] \<and>
        list_all (in_class [Rng CHR ''a'' CHR ''z'', Rng CHR ''A'' CHR ''Z'', Rng CHR ''0'' CHR ''9'',
          Ch CHR ''.'', Ch CHR ''_'', Ch CHR ''%'', Ch CHR ''+'', Ch CHR ''-'']) name \<and>
        host \<noteq> [] \<and>
        list_all (in_class [Rng CHR ''a'' CHR ''z'', Rng CHR ''A'' CHR ''Z'', Rng CHR ''0'' CHR ''9'',
          Ch CHR ''.'', Ch CHR ''-'']) host \<and>
        2 \<le> length tld \<and>
        list_all (in_class [Rng CHR ''a'' CHR ''z'', Rng CHR ''A'' CHR ''Z'']) tld)"
    unfolding local_chars_def domain_chars_def letter_def set_rems_lit
      set_rems_one_or_more_chars set_rems_two_or_more_chars
    by (simp only: append_Nil2) blast
  finally show ?thesis .
qed

lemmas re_defs = test_def ends_ok_def emailRegex_def seqs_def one_or_more_def two_or_more_def
  local_chars_def domain_chars_def letter_def lit_def in_class_def starts_re_def contains_re_def
  temp_email_re_def digit_def

lemmas example_defs = member_temporary_def member_regular_def member_without_email_def
  env_accepting_def env_database_rejects_def env_reset_fails_def env_provider_fails_def
  state_typed_def state_test_address_def initial_state_def

section \<open>The handlers, block by block\<close>

lemma emailRegex_rejects_empty: "\<not> test emailRegex []"
  by (simp add: re_defs)

lemma handleEmailUpdate_proceeds:
  assumes "test emailRegex (newEmail st)" "newEmail st \<noteq> email m"
  shows "handleEmailUpdate m w st =
     [SetEmailUpdateLoading True, SetEmailUpdateStatus Idle] @
     (case email_update_try m w (newEmail st) of
        (evs, None) \<Rightarrow> evs
      | (evs, Some error) \<Rightarrow> evs @ email_update_catch m error) @
     [SetEmailUpdateLoading False]"
proof -
  from assms(1) have "newEmail st \<noteq> []"
    using emailRegex_rejects_empty by auto
  with assms show ?thesis
    by (simp add: handleEmailUpdate_def)
qed

lemma temporary_not_falsy:
  assumes "isTemporaryEmail s"
  shows "\<not> falsy (extractMemberIdFromTempEmail s)"
proof -
  from assms obtain ds where "ds \<noteq> []" "set ds \<subseteq> set ''0123456789''" "s = ds @ ''@gmail.com''"
    using isTemporaryEmail_iff by blast
  then have "extractMemberIdFromTempEmail s = Some ds"
    by (simp add: extract_Some_iff)
  with \<open>ds \<noteq> []\<close> show ?thesis by (simp add: falsy_def)
qed

lemma temporary_branch_throws:
  assumes "isTemporaryEmail (email m)"
  shows "snd (temporary_email_branch m w e) = None \<or>
         snd (temporary_email_branch m w e) = Some (Error (Some ''Failed to update email in database''))"
  using temporary_not_falsy [OF assms]
  by (simp add: temporary_email_branch_def Let_def split: prod.splits option.splits)

lemma try_throws_when_temporary:
  assumes "isTemporaryEmail (email m)"
  shows "snd (email_update_try m w e) = None \<or>
         snd (email_update_try m w e) = Some (Error (Some ''Failed to update email in database''))"
  using temporary_branch_throws [OF assms, of w e] assms
  by (auto simp add: email_update_try_def split: prod.splits option.splits)

lemma no_error_toast_in_try: "error_toast d \<notin> set (fst (email_update_try m w e))"
  by (auto simp add: email_update_try_def temporary_email_branch_def regular_email_branch_def
      database_update_try_def reset_password_for_new_email_def Let_def error_toast_def
      email_updated_toast_def verification_sent_toast_def
      split: prod.splits option.splits outcome.splits if_splits)

lemma error_toast_eq_iff: "error_toast a = error_toast b \<longleftrightarrow> a = b"
  by (simp add: error_toast_def)

lemma database_failure_message:
  assumes "isTemporaryEmail (email m)"
  shows "email_error_message m (Error (Some ''Failed to update email in database'')) =
     ''Database update failed. Please contact support.''"
  using assms by (simp add: email_error_message_def message_includes_def includes_str_def)

lemma error_toasts_when_temporary:
  assumes temp: "isTemporaryEmail (email m)"
    and shown: "error_toast d \<in> set (handleEmailUpdate m w st)"
  shows "d = ''Please enter a new email address'' \<or> d = ''Please enter a valid email address'' \<or>
         d = ''Database update failed. Please contact support.''"
proof (cases "test emailRegex (newEmail st) \<and> newEmail st \<noteq> email m")
  case False
  with shown show ?thesis
    by (auto simp add: handleEmailUpdate_def error_toast_eq_iff split: if_splits)
next
  case True
  obtain evs r where tr: "email_update_try m w (newEmail st) = (evs, r)"
    by (cases "email_update_try m w (newEmail st)")
  have evs: "error_toast d \<notin> set evs"
    using no_error_toast_in_try [of d m w "newEmail st"] tr by simp
  have r: "r = None \<or> r = Some (Error (Some ''Failed to update email in database''))"
    using try_throws_when_temporary [OF temp, of w "newEmail st"] tr by simp
  from True have "handleEmailUpdate m w st =
     [SetEmailUpdateLoading True, SetEmailUpdateStatus Idle] @
     (case email_update_try m w (newEmail st) of
        (evs, None) \<Rightarrow> evs
      | (evs, Some error) \<Rightarrow> evs @ email_update_catch m error) @
     [SetEmailUpdateLoading False]"
    by (simp add: handleEmailUpdate_proceeds)
  with shown tr evs r show ?thesis
    by (auto simp add: email_update_catch_def error_toast_eq_iff database_failure_message [OF temp]
        error_toast_def)
qed

lemma try_events_temporary:
  assumes "isTemporaryEmail (email m)"
  shows "Call_db_members_update (id_m m) e \<in> set (fst (email_update_try m w e))"
    and "Call_auth_updateEmail x \<notin> set (fst (email_update_try m w e))"
  using assms temporary_not_falsy [OF assms]
  by (auto simp add: email_update_try_def temporary_email_branch_def
      database_update_try_def reset_password_for_new_email_def Let_def
      email_updated_toast_def
      split: prod.splits option.splits outcome.splits)

lemma try_events_regular:
  assumes "\<not> isTemporaryEmail (email m)"
  shows "Call_auth_updateEmail e \<in> set (fst (email_update_try m w e))"
    and "Call_db_members_update i x \<notin> set (fst (email_update_try m w e))"
  using assms
  by (auto simp add: email_update_try_def regular_email_branch_def Let_def
      verification_sent_toast_def
      split: prod.splits option.splits outcome.splits)

lemma handleEmailUpdate_calls:
  assumes "test emailRegex (newEmail st)" "newEmail st \<noteq> email m"
  shows "Call_db_members_update i x \<in> set (handleEmailUpdate m w st) \<longleftrightarrow>
           Call_db_members_update i x \<in> set (fst (email_update_try m w (newEmail st)))"
    and "Call_auth_updateEmail x \<in> set (handleEmailUpdate m w st) \<longleftrightarrow>
           Call_auth_updateEmail x \<in> set (fst (email_update_try m w (newEmail st)))"
proof -
  obtain evs r where tr: "email_update_try m w (newEmail st) = (evs, r)"
    by (cases "email_update_try m w (newEmail st)")
  show "Call_db_members_update i x \<in> set (handleEmailUpdate m w st) \<longleftrightarrow>
           Call_db_members_update i x \<in> set (fst (email_update_try m w (newEmail st)))"
    by (cases r)
      (auto simp add: handleEmailUpdate_proceeds [OF assms] tr email_update_catch_def error_toast_def)
  show "Call_auth_updateEmail x \<in> set (handleEmailUpdate m w st) \<longleftrightarrow>
           Call_auth_updateEmail x \<in> set (fst (email_update_try m w (newEmail st)))"
    by (cases r)
      (auto simp add: handleEmailUpdate_proceeds [OF assms] tr email_update_catch_def error_toast_def)
qed

lemma try_when_database_update_fails:
  assumes temp: "isTemporaryEmail (email m)"
    and fails: "db_members_update w (id_m m) e = Throws err \<or>
                db_members_update w (id_m m) e = Returns (um, Some err)"
  shows "email_update_try m w e =
     ([Console Handling_temporary_email_update,
       Console (Extracted_member_id (extractMemberIdFromTempEmail (email m))),
       Call_db_members_update (id_m m) e, Console (Database_update_failed err)],
      Some (Error (Some ''Failed to update email in database'')))"
proof -
  from fails have "database_update_try m w e = ([Call_db_members_update (id_m m) e], Some err)"
    by (auto simp add: database_update_try_def)
  then show ?thesis
    using temp temporary_not_falsy [OF temp]
    by (simp add: email_update_try_def temporary_email_branch_def Let_def)
qed

lemma database_update_try_reset_fails:
  assumes ok: "db_members_update w (id_m m) e = Returns (um, None)"
    and fails: "supabase_auth_resetPasswordForEmail w e (origin w @ ''/reset-password'') = Throws err \<or>
                supabase_auth_resetPasswordForEmail w e (origin w @ ''/reset-password'') = Returns (Some err)"
  shows "\<exists>entry rest.
           (entry = Reset_setup_failed err \<or> entry = Password_reset_failed (message err)) \<and>
           fst (database_update_try m w e) =
             [Call_db_members_update (id_m m) e, Console (Member_email_updated um),
              Call_resetPasswordForEmail e (origin w @ ''/reset-password''), Console entry,
              SetEmailUpdateStatus Pending, SetUpdatedEmail e, email_updated_toast e] @ rest \<and>
           (um = None \<or> (\<exists>u. um = Some u \<and> onMemberUpdate w u = Returns ()) \<longrightarrow>
              database_update_try m w e =
                ([Call_db_members_update (id_m m) e, Console (Member_email_updated um),
                  Call_resetPasswordForEmail e (origin w @ ''/reset-password''), Console entry,
                  SetEmailUpdateStatus Pending, SetUpdatedEmail e, email_updated_toast e] @
                 (case um of None \<Rightarrow> [] | Some u \<Rightarrow> [Call_onMemberUpdate u]), None))"
  using assms
  by (auto simp add: database_update_try_def reset_password_for_new_email_def Let_def
      split: option.splits outcome.splits)


lemma try_when_temporary:
  assumes temp: "isTemporaryEmail (email m)"
  shows "email_update_try m w e =
     (case database_update_try m w e of
        (evs, None) \<Rightarrow>
          ([Console Handling_temporary_email_update,
            Console (Extracted_member_id (extractMemberIdFromTempEmail (email m)))] @ evs @
           [SetNewEmail [], SetEmailValidation None], None)
      | (evs, Some dbError) \<Rightarrow>
          ([Console Handling_temporary_email_update,
            Console (Extracted_member_id (extractMemberIdFromTempEmail (email m)))] @ evs @
           [Console (Database_update_failed dbError)],
           Some (Error (Some ''Failed to update email in database''))))"
  using temp temporary_not_falsy [OF temp]
  by (simp add: email_update_try_def temporary_email_branch_def Let_def
      split: prod.splits option.splits)

lemma try_events_in_handler:
  assumes "test emailRegex (newEmail st)" "newEmail st \<noteq> email m"
  shows "set (fst (email_update_try m w (newEmail st))) \<subseteq> set (handleEmailUpdate m w st)"
proof -
  obtain evs r where tr: "email_update_try m w (newEmail st) = (evs, r)"
    by (cases "email_update_try m w (newEmail st)")
  show ?thesis
    by (cases r) (auto simp add: handleEmailUpdate_proceeds [OF assms] tr)
qed

lemma database_try_events_in_try:
  assumes "isTemporaryEmail (email m)"
  shows "set (fst (database_update_try m w e)) \<subseteq> set (fst (email_update_try m w e))"
proof -
  obtain evs r where tr: "database_update_try m w e = (evs, r)"
    by (cases "database_update_try m w e")
  show ?thesis
    by (cases r) (auto simp add: try_when_temporary [OF assms] tr)
qed

section \<open>The input field and its validation along a session\<close>

lemma state_after_append: "state_after st (a @ b) = state_after (state_after st a) b"
  by (simp add: state_after_def)

lemma state_after_untouched:
  "\<not> list_ex touches_input evs \<Longrightarrow>
     newEmail (state_after st evs) = newEmail st \<and>
     emailValidation (state_after st evs) = emailValidation st"
proof (induction evs arbitrary: st)
  case Nil
  show ?case by (simp add: state_after_def)
next
  case (Cons ev evs)
  then have "newEmail (state_after (apply_event st ev) evs) = newEmail (apply_event st ev) \<and>
     emailValidation (state_after (apply_event st ev) evs) = emailValidation (apply_event st ev)"
    by simp
  moreover from Cons.prems have "newEmail (apply_event st ev) = newEmail st \<and>
      emailValidation (apply_event st ev) = emailValidation st"
    by (cases ev) simp_all
  ultimately show ?case by (simp add: state_after_def)
qed

lemma validateEmailFormat_shape: "\<exists>v. validateEmailFormat e = [SetEmailValidation v]"
  by (simp add: validateEmailFormat_def split: option.splits)

lemma validateEmailFormat_empty: "validateEmailFormat [] = [SetEmailValidation None]"
  by (simp add: validateEmailFormat_def)

lemma catch_untouched: "\<not> list_ex touches_input (email_update_catch m err)"
  by (simp add: email_update_catch_def error_toast_def)

lemma try_input_effect:
  "\<exists>evs. \<not> list_ex touches_input evs \<and>
     (email_update_try m w e = (evs @ [SetNewEmail [], SetEmailValidation None], None) \<or>
      (\<exists>err. email_update_try m w e = (evs, Some err)))"
  by (auto simp add: email_update_try_def temporary_email_branch_def regular_email_branch_def
      database_update_try_def reset_password_for_new_email_def Let_def
      email_updated_toast_def verification_sent_toast_def
      split: prod.splits option.splits outcome.splits)


lemma handleEmailUpdate_keeps_input_validated:
  assumes "input_validated st"
  shows "input_validated (state_after st (handleEmailUpdate m w st))"
proof (cases "test emailRegex (newEmail st) \<and> newEmail st \<noteq> email m")
  case False
  then have "handleEmailUpdate m w st = [error_toast ''Please enter a new email address''] \<or>
      handleEmailUpdate m w st = [error_toast ''Please enter a valid email address'']"
    by (auto simp add: handleEmailUpdate_def)
  then have "state_after st (handleEmailUpdate m w st) = st"
    by (auto simp add: state_after_def error_toast_def)
  with assms show ?thesis by simp
next
  case True
  then have run: "handleEmailUpdate m w st =
     [SetEmailUpdateLoading True, SetEmailUpdateStatus Idle] @
     (case email_update_try m w (newEmail st) of
        (evs, None) \<Rightarrow> evs
      | (evs, Some error) \<Rightarrow> evs @ email_update_catch m error) @
     [SetEmailUpdateLoading False]"
    by (simp add: handleEmailUpdate_proceeds)
  obtain evs where evs: "\<not> list_ex touches_input evs"
    and tr: "email_update_try m w (newEmail st) = (evs @ [SetNewEmail [], SetEmailValidation None], None) \<or>
      (\<exists>err. email_update_try m w (newEmail st) = (evs, Some err))"
    using try_input_effect by blast
  from tr show ?thesis
  proof
    assume ok: "email_update_try m w (newEmail st) = (evs @ [SetNewEmail [], SetEmailValidation None], None)"
    have "handleEmailUpdate m w st =
        ([SetEmailUpdateLoading True, SetEmailUpdateStatus Idle] @ evs) @
        ([SetNewEmail [], SetEmailValidation None] @ [SetEmailUpdateLoading False])"
      by (simp add: run ok)
    then have "newEmail (state_after st (handleEmailUpdate m w st)) = [] \<and>
        emailValidation (state_after st (handleEmailUpdate m w st)) = None"
      by (simp only: state_after_append) (simp add: state_after_def)
    then show ?thesis
      by (simp add: input_validated_def validateEmailFormat_empty)
  next
    assume "\<exists>err. email_update_try m w (newEmail st) = (evs, Some err)"
    then obtain err where failed: "email_update_try m w (newEmail st) = (evs, Some err)" by blast
    have "\<not> list_ex touches_input (handleEmailUpdate m w st)"
      using evs catch_untouched [of m err] by (simp add: run failed)
    then have "newEmail (state_after st (handleEmailUpdate m w st)) = newEmail st \<and>
        emailValidation (state_after st (handleEmailUpdate m w st)) = emailValidation st"
      by (rule state_after_untouched)
    with assms show ?thesis by (simp add: input_validated_def)
  qed
qed

lemma handlePasswordReset_untouched: "\<not> list_ex touches_input (handlePasswordReset m w)"
  by (simp add: handlePasswordReset_def error_toast_def password_reset_catch_def
      reset_sent_toast_def split: outcome.splits option.splits)

lemma handle_keeps_input_validated:
  assumes "input_validated st"
  shows "input_validated (state_after st (handle st a))"
proof (cases a)
  case (Type_email e)
  obtain v where v: "validateEmailFormat e = [SetEmailValidation v]"
    using validateEmailFormat_shape by blast
  with assms Type_email show ?thesis
    by (simp add: handleEmailChange_def state_after_def input_validated_def)
next
  case (Click_update m w)
  with assms handleEmailUpdate_keeps_input_validated [OF assms, of m w] show ?thesis
    by (simp add: state_after_def)
next
  case Click_reset
  with assms show ?thesis
    by (simp add: state_after_def input_validated_def validateEmailFormat_empty)
next
  case (Click_change_password m w)
  have "newEmail (state_after st (handlePasswordReset m w)) = newEmail st \<and>
      emailValidation (state_after st (handlePasswordReset m w)) = emailValidation st"
    using handlePasswordReset_untouched by (rule state_after_untouched)
  with assms Click_change_password show ?thesis
    by (simp add: input_validated_def state_after_def)
qed

lemma update_calls_of_try:
  assumes "ev \<in> set (fst (email_update_try m w e))" "is_update_call_for x ev"
  shows "x = e"
  using assms
  by (auto simp add: email_update_try_def temporary_email_branch_def regular_email_branch_def
      database_update_try_def reset_password_for_new_email_def Let_def
      email_updated_toast_def verification_sent_toast_def
      split: prod.splits option.splits outcome.splits if_splits)

lemma update_calls_of_handleEmailUpdate:
  assumes "ev \<in> set (handleEmailUpdate m w st)" "is_update_call_for x ev"
  shows "x = newEmail st"
proof (cases "test emailRegex (newEmail st) \<and> newEmail st \<noteq> email m")
  case False
  with assms show ?thesis
    by (auto simp add: handleEmailUpdate_def error_toast_def split: if_splits)
next
  case True
  obtain evs r where tr: "email_update_try m w (newEmail st) = (evs, r)"
    by (cases "email_update_try m w (newEmail st)")
  from True assms have "ev \<in> set evs"
    by (cases r)
      (auto simp add: handleEmailUpdate_proceeds tr email_update_catch_def error_toast_def)
  then show ?thesis
    using update_calls_of_try [of ev m w "newEmail st" x] assms(2) tr by simp
qed

lemma handle_never_sends_rejected:
  assumes valid: "input_validated st"
    and rejected: "validateEmailFormat x = [SetEmailValidation (Some v)]" "\<not> isValid v"
  shows "\<not> list_ex (is_update_call_for x) (handle st a)"
proof (cases a)
  case (Type_email e)
  obtain u where "validateEmailFormat e = [SetEmailValidation u]"
    using validateEmailFormat_shape by blast
  with Type_email show ?thesis by (simp add: handleEmailChange_def)
next
  case (Click_update m w)
  show ?thesis
  proof (cases "update_button_disabled st")
    case True
    with Click_update show ?thesis by simp
  next
    case False
    have "newEmail st \<noteq> x"
    proof
      assume "newEmail st = x"
      with valid rejected have "emailValidation st = Some v"
        by (simp add: input_validated_def)
      with rejected(2) False show False
        by (simp add: update_button_disabled_def)
    qed
    then have "\<not> list_ex (is_update_call_for x) (handleEmailUpdate m w st)"
      using update_calls_of_handleEmailUpdate [of _ m w st x] by (auto simp add: list_ex_iff)
    with Click_update False show ?thesis by simp
  qed
next
  case Click_reset
  then show ?thesis by simp
next
  case (Click_change_password m w)
  then show ?thesis
    by (simp add: handlePasswordReset_def error_toast_def password_reset_catch_def
        reset_sent_toast_def split: outcome.splits option.splits)
qed

lemma session_never_sends_rejected:
  assumes "input_validated st"
    and "validateEmailFormat x = [SetEmailValidation (Some v)]" "\<not> isValid v"
  shows "\<not> list_ex (is_update_call_for x) (session st acts)"
  using assms(1)
proof (induction acts arbitrary: st)
  case Nil
  show ?case by simp
next
  case (Cons a acts)
  have "\<not> list_ex (is_update_call_for x) (handle st a)"
    using handle_never_sends_rejected [OF Cons.prems assms(2,3)] .
  moreover have "\<not> list_ex (is_update_call_for x) (session (state_after st (handle st a)) acts)"
    using Cons.IH [OF handle_keeps_input_validated [OF Cons.prems]] .
  ultimately show ?case by simp
qed

lemma initial_state_input_validated: "input_validated initial_state"
  by (simp add: input_validated_def initial_state_def validateEmailFormat_empty)

lemma emailRegex_accepts_test_address: "test emailRegex ''test@test.com''"
  by (simp add: re_defs)

lemma first_invalid_test_address:
  "first_invalid invalidPatterns (toLowerCase ''test@test.com'') =
     Some ''Please use your real email address''"
  by (simp add: toLowerCase_def lower_char_def invalidPatterns_def test_def ends_ok_def
      starts_re_def lit_def in_class_def)

lemma validateEmailFormat_test_address:
  "validateEmailFormat ''test@test.com'' =
     [SetEmailValidation (Some \<lparr>isValid = False, message_v = ''Please use your real email address''\<rparr>)]"
  by (simp add: validateEmailFormat_def emailRegex_accepts_test_address first_invalid_test_address)

section \<open>The claims\<close>

text \<open>
  C1. With a syntactically valid new email that differs from the current one,
  \<open>handleEmailUpdate\<close> takes the path of the current email: a member whose current
  email is temporary gets \<^verbatim>\<open>db.members.update(member.id, {email: newEmail})\<close> and no
  call of \<^verbatim>\<open>auth.updateEmail\<close>; a member whose current email is not temporary gets
  \<^verbatim>\<open>auth.updateEmail(newEmail)\<close> and no call of \<^verbatim>\<open>db.members.update\<close>.
\<close>

theorem handleEmailUpdate_update_path:
  assumes "test emailRegex (newEmail st)" "newEmail st \<noteq> email m"
  shows "(isTemporaryEmail (email m) \<longrightarrow>
            Call_db_members_update (id_m m) (newEmail st) \<in> set (handleEmailUpdate m w st) \<and>
            (\<forall>e. Call_auth_updateEmail e \<notin> set (handleEmailUpdate m w st))) \<and>
         (\<not> isTemporaryEmail (email m) \<longrightarrow>
            Call_auth_updateEmail (newEmail st) \<in> set (handleEmailUpdate m w st) \<and>
            (\<forall>i e. Call_db_members_update i e \<notin> set (handleEmailUpdate m w st)))"
  by (simp add: handleEmailUpdate_calls [OF assms] try_events_temporary try_events_regular)

theorem handleEmailUpdate_update_path_witness:
  "test emailRegex (newEmail (state_typed ''john.doe@mail.org'')) \<and>
   newEmail (state_typed ''john.doe@mail.org'') \<noteq> email member_temporary \<and>
   newEmail (state_typed ''john.doe@mail.org'') \<noteq> email member_regular \<and>
   isTemporaryEmail (email member_temporary) \<and>
   \<not> isTemporaryEmail (email member_regular) \<and>
   Call_db_members_update ''7f3a'' ''john.doe@mail.org''
     \<in> set (handleEmailUpdate member_temporary env_accepting (state_typed ''john.doe@mail.org'')) \<and>
   Call_auth_updateEmail ''john.doe@mail.org''
     \<in> set (handleEmailUpdate member_regular env_accepting (state_typed ''john.doe@mail.org''))"
proof -
  let ?st = "state_typed ''john.doe@mail.org''"
  have valid: "test emailRegex (newEmail ?st)"
    by (simp add: state_typed_def re_defs)
  have other: "newEmail ?st \<noteq> email member_temporary" "newEmail ?st \<noteq> email member_regular"
    by (simp_all add: example_defs)
  have temp: "isTemporaryEmail (email member_temporary)"
    by (simp add: member_temporary_def isTemporaryEmail_def re_defs)
  have regular: "\<not> isTemporaryEmail (email member_regular)"
    by (simp add: member_regular_def isTemporaryEmail_def re_defs)
  from handleEmailUpdate_update_path [OF valid other(1), of env_accepting] temp
  have a: "Call_db_members_update (id_m member_temporary) (newEmail ?st)
      \<in> set (handleEmailUpdate member_temporary env_accepting ?st)" by blast
  from handleEmailUpdate_update_path [OF valid other(2), of env_accepting] regular
  have b: "Call_auth_updateEmail (newEmail ?st)
      \<in> set (handleEmailUpdate member_regular env_accepting ?st)" by blast
  have names: "id_m member_temporary = ''7f3a''" "newEmail ?st = ''john.doe@mail.org''"
    by (simp_all add: example_defs)
  from valid other temp regular a b show ?thesis
    by (simp only: names simp_thms)
qed

text \<open>
  C2. The new email \<open>test@test.com\<close> is rejected: \<open>validateEmailFormat\<close> sets the
  validation to invalid with the message of the first pattern, \<^verbatim>\<open>/^test@/\<close>, which
  matches; while the validation is invalid the update button is disabled and a click does
  nothing; in no session from the fresh form is an update call issued for that address.
  The regular expression of \<open>handleEmailUpdate\<close> alone accepts the address: called
  with it, the handler reaches the provider.
\<close>

theorem test_address_rejected:
  "validateEmailFormat ''test@test.com'' =
     [SetEmailValidation (Some \<lparr>isValid = False, message_v = ''Please use your real email address''\<rparr>)] \<and>
   hd invalidPatterns = (starts_re ''test@'', ''Please use your real email address'') \<and>
   test (starts_re ''test@'') (toLowerCase ''test@test.com'') \<and>
   (emailValidation st = Some v \<and> \<not> isValid v \<longrightarrow>
      update_button_disabled st \<and> handle st (Click_update m w) = []) \<and>
   \<not> list_ex (is_update_call_for ''test@test.com'') (session initial_state acts) \<and>
   test emailRegex ''test@test.com'' \<and>
   (\<not> isTemporaryEmail (email m) \<and> email m \<noteq> ''test@test.com'' \<longrightarrow>
      Call_auth_updateEmail ''test@test.com''
        \<in> set (handleEmailUpdate m w (st\<lparr>newEmail := ''test@test.com''\<rparr>)))"
    (is "?validation \<and> ?first \<and> ?matches \<and> (?invalid \<longrightarrow> ?disabled \<and> ?nothing) \<and>
         ?never \<and> ?accepted \<and> (?regular \<longrightarrow> ?sent)")
proof (intro conjI impI)
  show ?validation
    by (rule validateEmailFormat_test_address)
  show ?first
    by (simp add: invalidPatterns_def)
  show ?matches
    by (simp add: toLowerCase_def lower_char_def test_def ends_ok_def starts_re_def lit_def in_class_def)
  show ?never
    using session_never_sends_rejected [OF initial_state_input_validated
        validateEmailFormat_test_address] by simp
  show ?accepted
    by (rule emailRegex_accepts_test_address)
next
  assume ?invalid
  then show ?disabled
    by (simp add: update_button_disabled_def)
  then show ?nothing
    by simp
next
  assume regular: ?regular
  let ?st = "st\<lparr>newEmail := ''test@test.com''\<rparr>"
  have ok: "test emailRegex (newEmail ?st)" "newEmail ?st \<noteq> email m"
    using regular emailRegex_accepts_test_address by auto
  show ?sent
    using handleEmailUpdate_calls(2) [OF ok, of "''test@test.com''" w]
      try_events_regular(1) [of m "''test@test.com''" w] regular
    by simp
qed

theorem test_address_rejected_witness:
  "emailValidation state_test_address =
     Some \<lparr>isValid = False, message_v = ''Please use your real email address''\<rparr> \<and>
   \<not> isTemporaryEmail (email member_regular) \<and> email member_regular \<noteq> ''test@test.com'' \<and>
   state_after initial_state (handle initial_state (Type_email ''test@test.com'')) = state_test_address \<and>
   update_button_disabled state_test_address \<and>
   handle state_test_address (Click_update member_regular env_accepting) = [] \<and>
   \<not> list_ex (is_update_call_for ''test@test.com'')
       (session initial_state [Type_email ''test@test.com'', Click_update member_regular env_accepting]) \<and>
   Call_auth_updateEmail ''test@test.com''
     \<in> set (handleEmailUpdate member_regular env_accepting state_test_address)"
proof -
  let ?v = "\<lparr>isValid = False, message_v = ''Please use your real email address''\<rparr>"
  note claim = test_address_rejected [of state_test_address ?v member_regular env_accepting
      "[Type_email ''test@test.com'', Click_update member_regular env_accepting]"]
  have shown: "emailValidation state_test_address = Some ?v \<and> \<not> isValid ?v"
    by (simp add: state_test_address_def)
  have regular: "\<not> isTemporaryEmail (email member_regular) \<and> email member_regular \<noteq> ''test@test.com''"
    by (simp add: member_regular_def isTemporaryEmail_def re_defs)
  have same: "state_test_address\<lparr>newEmail := ''test@test.com''\<rparr> = state_test_address"
    by (simp add: state_test_address_def)
  from claim have typed: "validateEmailFormat ''test@test.com'' = [SetEmailValidation (Some ?v)]"
    by blast
  have after: "state_after initial_state (handle initial_state (Type_email ''test@test.com'')) =
      state_test_address"
    by (simp add: handleEmailChange_def typed state_after_def state_test_address_def initial_state_def)
  from claim shown have disabled: "update_button_disabled state_test_address \<and>
      handle state_test_address (Click_update member_regular env_accepting) = []"
    by blast
  from claim have never: "\<not> list_ex (is_update_call_for ''test@test.com'')
       (session initial_state [Type_email ''test@test.com'', Click_update member_regular env_accepting])"
    by blast
  from claim regular have direct: "Call_auth_updateEmail ''test@test.com''
     \<in> set (handleEmailUpdate member_regular env_accepting (state_test_address\<lparr>newEmail := ''test@test.com''\<rparr>))"
    by blast
  from shown regular after disabled never direct show ?thesis
    by (simp only: same simp_thms)
qed

text \<open>
  C3. \<open>isTemporaryEmail\<close> is true exactly for the strings made of one or more digits
  immediately followed by \<open>@gmail.com\<close>, and false for every other string. In
  particular an address at \<open>gmail.com\<close> whose local part has a character that is not
  a digit is not classified as temporary.
\<close>

theorem isTemporaryEmail_exactly_digits_at_gmail:
  "(isTemporaryEmail s \<longleftrightarrow>
      (\<exists>ds. ds \<noteq> [] \<and> set ds \<subseteq> set ''0123456789'' \<and> s = ds @ ''@gmail.com'')) \<and>
   ((\<exists>c \<in> set local. c \<notin> set ''0123456789'') \<longrightarrow> \<not> isTemporaryEmail (local @ ''@gmail.com''))"
proof
  show "isTemporaryEmail s \<longleftrightarrow>
      (\<exists>ds. ds \<noteq> [] \<and> set ds \<subseteq> set ''0123456789'' \<and> s = ds @ ''@gmail.com'')"
    by (rule isTemporaryEmail_iff)
next
  show "(\<exists>c \<in> set local. c \<notin> set ''0123456789'') \<longrightarrow> \<not> isTemporaryEmail (local @ ''@gmail.com'')"
  proof
    assume other: "\<exists>c \<in> set local. c \<notin> set ''0123456789''"
    show "\<not> isTemporaryEmail (local @ ''@gmail.com'')"
    proof
      assume "isTemporaryEmail (local @ ''@gmail.com'')"
      then obtain ds where "set ds \<subseteq> set ''0123456789''" "local @ ''@gmail.com'' = ds @ ''@gmail.com''"
        using isTemporaryEmail_iff by blast
      then have "set local \<subseteq> set ''0123456789''" by simp
      with other show False by blast
    qed
  qed
qed

theorem isTemporaryEmail_exactly_digits_at_gmail_witness:
  "isTemporaryEmail ''12345@gmail.com'' \<and> \<not> isTemporaryEmail ''john.doe@gmail.com''"
proof -
  have other: "\<exists>c \<in> set ''john.doe''. c \<notin> set ''0123456789''" by simp
  with isTemporaryEmail_exactly_digits_at_gmail [of "''12345@gmail.com''" "''john.doe''"]
  have no: "\<not> isTemporaryEmail (''john.doe'' @ ''@gmail.com'')" by blast
  have "\<exists>ds. ds \<noteq> [] \<and> set ds \<subseteq> set ''0123456789'' \<and> ''12345@gmail.com'' = ds @ ''@gmail.com''"
    by (rule exI [of "\<lambda>ds. ds \<noteq> [] \<and> set ds \<subseteq> set ''0123456789'' \<and>
          ''12345@gmail.com'' = ds @ ''@gmail.com''" "''12345''"]) simp
  with isTemporaryEmail_exactly_digits_at_gmail [of "''12345@gmail.com''" "''john.doe''"]
  have yes: "isTemporaryEmail ''12345@gmail.com''" by blast
  from yes no show ?thesis by simp
qed

text \<open>
  C4. For a member whose current email is not temporary, when the provider's email
  update fails (it throws, or it returns an error), the handler shows one destructive
  toast whose message is chosen from \<^verbatim>\<open>error.message\<close> in this order: it contains
  \<open>invalid\<close>; else \<open>already exists\<close> or \<open>taken\<close>; else \<open>rate limit\<close>; else
  \<open>network\<close> or \<open>connection\<close>; else the message itself when it is not empty; else
  the default.
\<close>

theorem regular_email_error_toast:
  assumes "test emailRegex (newEmail st)" "newEmail st \<noteq> email m"
    and "\<not> isTemporaryEmail (email m)"
    and "auth_updateEmail w (newEmail st) = Throws err \<or>
         auth_updateEmail w (newEmail st) = Returns (Some err)"
  shows "handleEmailUpdate m w st =
     [SetEmailUpdateLoading True, SetEmailUpdateStatus Idle,
      Console Handling_regular_email_update, Call_auth_updateEmail (newEmail st),
      Console (Email_update_error err), SetEmailUpdateStatus Failed,
      Toast \<lparr>title = ''Error'',
        description =
          (case message err of
             None \<Rightarrow> ''Failed to update email. Please try again.''
           | Some msg \<Rightarrow>
               if includes_str msg ''invalid'' then
                 ''The email address format is not accepted. Please use a different email address.''
               else if includes_str msg ''already exists'' \<or> includes_str msg ''taken'' then
                 ''This email address is already in use. Please choose a different email.''
               else if includes_str msg ''rate limit'' then
                 ''Too many requests. Please wait a few minutes before trying again.''
               else if includes_str msg ''network'' \<or> includes_str msg ''connection'' then
                 ''Network error. Please check your connection and try again.''
               else if msg \<noteq> [] then msg
               else ''Failed to update email. Please try again.''),
        variant = Some Destructive\<rparr>,
      SetEmailUpdateLoading False]"
proof -
  have tr: "email_update_try m w (newEmail st) =
      ([Console Handling_regular_email_update, Call_auth_updateEmail (newEmail st)], Some err)"
    using assms(3,4) by (auto simp add: email_update_try_def regular_email_branch_def Let_def)
  show ?thesis
    using assms(3)
    by (simp add: handleEmailUpdate_proceeds [OF assms(1,2)] tr email_update_catch_def
        error_toast_def email_error_message_def message_includes_def message_or_def
        split: option.splits)
qed

theorem regular_email_error_toast_witness:
  "test emailRegex (newEmail (state_typed ''john.doe@mail.org'')) \<and>
   newEmail (state_typed ''john.doe@mail.org'') \<noteq> email member_regular \<and>
   \<not> isTemporaryEmail (email member_regular) \<and>
   auth_updateEmail env_provider_fails (newEmail (state_typed ''john.doe@mail.org'')) =
     Returns (Some (Error (Some ''Email rate limit exceeded''))) \<and>
   handleEmailUpdate member_regular env_provider_fails (state_typed ''john.doe@mail.org'') =
     [SetEmailUpdateLoading True, SetEmailUpdateStatus Idle,
      Console Handling_regular_email_update, Call_auth_updateEmail ''john.doe@mail.org'',
      Console (Email_update_error (Error (Some ''Email rate limit exceeded''))),
      SetEmailUpdateStatus Failed,
      Toast \<lparr>title = ''Error'',
        description = ''Too many requests. Please wait a few minutes before trying again.'',
        variant = Some Destructive\<rparr>,
      SetEmailUpdateLoading False]"
proof -
  let ?st = "state_typed ''john.doe@mail.org''"
  let ?err = "Error (Some ''Email rate limit exceeded'')"
  have valid: "test emailRegex (newEmail ?st)"
    by (simp add: state_typed_def re_defs)
  have other: "newEmail ?st \<noteq> email member_regular"
    by (simp add: example_defs)
  have regular: "\<not> isTemporaryEmail (email member_regular)"
    by (simp add: member_regular_def isTemporaryEmail_def re_defs)
  have fails: "auth_updateEmail env_provider_fails (newEmail ?st) = Returns (Some ?err)"
    by (simp add: example_defs)
  then have fails': "auth_updateEmail env_provider_fails (newEmail ?st) = Throws ?err \<or>
      auth_updateEmail env_provider_fails (newEmail ?st) = Returns (Some ?err)"
    by simp
  from regular_email_error_toast [OF valid other regular fails']
  have "handleEmailUpdate member_regular env_provider_fails ?st =
     [SetEmailUpdateLoading True, SetEmailUpdateStatus Idle,
      Console Handling_regular_email_update, Call_auth_updateEmail ''john.doe@mail.org'',
      Console (Email_update_error ?err), SetEmailUpdateStatus Failed,
      Toast \<lparr>title = ''Error'',
        description = ''Too many requests. Please wait a few minutes before trying again.'',
        variant = Some Destructive\<rparr>,
      SetEmailUpdateLoading False]"
    by (simp add: includes_str_def state_typed_def)
  with valid other regular fails show ?thesis by simp
qed

text \<open>
  C5. For a member whose current email is temporary, the \<^verbatim>\<open>catch\<close> block chooses
  the toast message from \<^verbatim>\<open>error.message\<close> in this order: it contains
  \<open>extract member ID\<close>; else \<open>database\<close>; else \<open>already exists\<close> or \<open>taken\<close>;
  else the fallback. When the \<^verbatim>\<open>try\<close> block throws, the handler runs that block on
  the thrown error.
\<close>

theorem temporary_email_error_toast:
  assumes "isTemporaryEmail (email m)"
  shows "email_update_catch m err =
           [Console (Email_update_error err), SetEmailUpdateStatus Failed,
            Toast \<lparr>title = ''Error'',
              description =
                (case message err of
                   None \<Rightarrow>
                     ''Failed to update temporary email. Please contact support if the issue persists.''
                 | Some msg \<Rightarrow>
                     if includes_str msg ''extract member ID'' then
                       ''Could not process temporary email. Please contact support.''
                     else if includes_str msg ''database'' then
                       ''Database update failed. Please contact support.''
                     else if includes_str msg ''already exists'' \<or> includes_str msg ''taken'' then
                       ''This email address is already in use. Please choose a different email.''
                     else
                       ''Failed to update temporary email. Please contact support if the issue persists.''),
              variant = Some Destructive\<rparr>] \<and>
         (test emailRegex (newEmail st) \<and> newEmail st \<noteq> email m \<and>
          email_update_try m w (newEmail st) = (evs, Some err) \<longrightarrow>
            handleEmailUpdate m w st =
              [SetEmailUpdateLoading True, SetEmailUpdateStatus Idle] @ evs @
              email_update_catch m err @ [SetEmailUpdateLoading False])"
    (is "?catch \<and> (?thrown \<longrightarrow> ?run)")
proof (intro conjI impI)
  show ?catch
    using assms
    by (simp add: email_update_catch_def error_toast_def email_error_message_def
        message_includes_def split: option.splits)
next
  assume ?thrown
  then show ?run
    by (simp add: handleEmailUpdate_proceeds)
qed

theorem temporary_email_error_toast_witness:
  "isTemporaryEmail (email member_temporary) \<and>
   test emailRegex (newEmail (state_typed ''john.doe@mail.org'')) \<and>
   newEmail (state_typed ''john.doe@mail.org'') \<noteq> email member_temporary \<and>
   email_update_try member_temporary env_database_rejects (newEmail (state_typed ''john.doe@mail.org'')) =
     ([Console Handling_temporary_email_update, Console (Extracted_member_id (Some ''12345'')),
       Call_db_members_update ''7f3a'' ''john.doe@mail.org'',
       Console (Database_update_failed (Error (Some ''duplicate key value: email already exists'')))],
      Some (Error (Some ''Failed to update email in database''))) \<and>
   email_update_catch member_temporary (Error (Some ''email already exists'')) =
     [Console (Email_update_error (Error (Some ''email already exists''))),
      SetEmailUpdateStatus Failed,
      Toast \<lparr>title = ''Error'',
        description = ''This email address is already in use. Please choose a different email.'',
        variant = Some Destructive\<rparr>] \<and>
   handleEmailUpdate member_temporary env_database_rejects (state_typed ''john.doe@mail.org'') =
     [SetEmailUpdateLoading True, SetEmailUpdateStatus Idle,
      Console Handling_temporary_email_update, Console (Extracted_member_id (Some ''12345'')),
      Call_db_members_update ''7f3a'' ''john.doe@mail.org'',
      Console (Database_update_failed (Error (Some ''duplicate key value: email already exists''))),
      Console (Email_update_error (Error (Some ''Failed to update email in database''))),
      SetEmailUpdateStatus Failed,
      Toast \<lparr>title = ''Error'',
        description = ''Database update failed. Please contact support.'',
        variant = Some Destructive\<rparr>,
      SetEmailUpdateLoading False]"
proof -
  let ?st = "state_typed ''john.doe@mail.org''"
  let ?thrown = "Error (Some ''Failed to update email in database'')"
  let ?evs = "[Console Handling_temporary_email_update, Console (Extracted_member_id (Some ''12345'')),
       Call_db_members_update ''7f3a'' ''john.doe@mail.org'',
       Console (Database_update_failed (Error (Some ''duplicate key value: email already exists'')))]"
  have temp: "isTemporaryEmail (email member_temporary)"
    by (simp add: member_temporary_def isTemporaryEmail_def re_defs)
  have valid: "test emailRegex (newEmail ?st)"
    by (simp add: state_typed_def re_defs)
  have other: "newEmail ?st \<noteq> email member_temporary"
    by (simp add: example_defs)
  have extracted: "extractMemberIdFromTempEmail ''12345@gmail.com'' = Some ''12345''"
    by (simp add: extractMemberIdFromTempEmail_def match_group1_def re_defs)
  have temp': "isTemporaryEmail ''12345@gmail.com''"
    using temp by (simp add: member_temporary_def)
  have tr: "email_update_try member_temporary env_database_rejects (newEmail ?st) = (?evs, Some ?thrown)"
    by (simp add: email_update_try_def temporary_email_branch_def database_update_try_def
        falsy_def Let_def example_defs extracted temp')
  from temporary_email_error_toast [OF temp, of "Error (Some ''email already exists'')"]
  have one: "email_update_catch member_temporary (Error (Some ''email already exists'')) =
     [Console (Email_update_error (Error (Some ''email already exists''))),
      SetEmailUpdateStatus Failed,
      Toast \<lparr>title = ''Error'',
        description = ''This email address is already in use. Please choose a different email.'',
        variant = Some Destructive\<rparr>]"
    by (simp add: includes_str_def)
  from temporary_email_error_toast [OF temp, of ?thrown ?st env_database_rejects ?evs] valid other tr
  have "email_update_catch member_temporary ?thrown =
      [Console (Email_update_error ?thrown), SetEmailUpdateStatus Failed,
       Toast \<lparr>title = ''Error'', description = ''Database update failed. Please contact support.'',
         variant = Some Destructive\<rparr>] \<and>
    handleEmailUpdate member_temporary env_database_rejects ?st =
      [SetEmailUpdateLoading True, SetEmailUpdateStatus Idle] @ ?evs @
      email_update_catch member_temporary ?thrown @ [SetEmailUpdateLoading False]"
    by (simp add: includes_str_def)
  then have two: "handleEmailUpdate member_temporary env_database_rejects ?st =
     [SetEmailUpdateLoading True, SetEmailUpdateStatus Idle,
      Console Handling_temporary_email_update, Console (Extracted_member_id (Some ''12345'')),
      Call_db_members_update ''7f3a'' ''john.doe@mail.org'',
      Console (Database_update_failed (Error (Some ''duplicate key value: email already exists''))),
      Console (Email_update_error ?thrown), SetEmailUpdateStatus Failed,
      Toast \<lparr>title = ''Error'', description = ''Database update failed. Please contact support.'',
        variant = Some Destructive\<rparr>,
      SetEmailUpdateLoading False]"
    by simp
  from temp valid other tr one two show ?thesis by simp
qed

text \<open>
  C6. \<open>handlePasswordReset\<close> calls \<^verbatim>\<open>auth.resetPassword(member.email)\<close> exactly
  when the member's email is not empty; with an empty email it shows the destructive
  toast \<open>No email address found for your account\<close> and nothing else; when the provider
  fails, the message is chosen by: \<open>rate limit\<close>; else \<open>not found\<close> or
  \<open>invalid\<close>; else the message itself when it is not empty; else the default.
\<close>

theorem handlePasswordReset_calls_and_errors:
  "(email m = [] \<longrightarrow>
      handlePasswordReset m w =
        [Toast \<lparr>title = ''Error'', description = ''No email address found for your account'',
           variant = Some Destructive\<rparr>]) \<and>
   (\<forall>e. Call_auth_resetPassword e \<in> set (handlePasswordReset m w) \<longleftrightarrow>
      email m \<noteq> [] \<and> e = email m) \<and>
   (email m \<noteq> [] \<and>
    (auth_resetPassword w (email m) = Throws err \<or>
     auth_resetPassword w (email m) = Returns (Some err)) \<longrightarrow>
      handlePasswordReset m w =
        [SetPasswordResetLoading True, Call_auth_resetPassword (email m),
         Console (Password_reset_error err),
         Toast \<lparr>title = ''Error'',
           description =
             (case message err of
                None \<Rightarrow> ''Failed to send password reset email. Please try again.''
              | Some msg \<Rightarrow>
                  if includes_str msg ''rate limit'' then
                    ''Too many requests. Please wait a few minutes before trying again.''
                  else if includes_str msg ''not found'' \<or> includes_str msg ''invalid'' then
                    ''Email address not found. Please contact support.''
                  else if msg \<noteq> [] then msg
                  else ''Failed to send password reset email. Please try again.''),
           variant = Some Destructive\<rparr>,
         SetPasswordResetLoading False])"
    (is "(?none \<longrightarrow> ?refused) \<and> (\<forall>e. ?called e) \<and> (?fails \<longrightarrow> ?run)")
proof (intro conjI allI impI)
  assume ?none
  then show ?refused
    by (simp add: handlePasswordReset_def error_toast_def)
next
  fix e
  show "?called e"
    by (auto simp add: handlePasswordReset_def error_toast_def password_reset_catch_def
        reset_sent_toast_def split: outcome.splits option.splits)
next
  assume ?fails
  then show ?run
    by (auto simp add: handlePasswordReset_def error_toast_def password_reset_catch_def
        reset_error_message_def message_includes_def message_or_def split: option.splits)
qed

theorem handlePasswordReset_calls_and_errors_witness:
  "email member_without_email = [] \<and> email member_regular \<noteq> [] \<and>
   auth_resetPassword env_provider_fails (email member_regular) = Throws (Error (Some ''User not found'')) \<and>
   handlePasswordReset member_without_email env_accepting =
     [Toast \<lparr>title = ''Error'', description = ''No email address found for your account'',
        variant = Some Destructive\<rparr>] \<and>
   Call_auth_resetPassword ''old.address@mail.org''
     \<in> set (handlePasswordReset member_regular env_accepting) \<and>
   handlePasswordReset member_regular env_provider_fails =
     [SetPasswordResetLoading True, Call_auth_resetPassword ''old.address@mail.org'',
      Console (Password_reset_error (Error (Some ''User not found''))),
      Toast \<lparr>title = ''Error'', description = ''Email address not found. Please contact support.'',
        variant = Some Destructive\<rparr>,
      SetPasswordResetLoading False]"
proof -
  let ?err = "Error (Some ''User not found'')"
  have none: "email member_without_email = []"
    by (simp add: example_defs)
  have some: "email member_regular \<noteq> []" "email member_regular = ''old.address@mail.org''"
    by (simp_all add: example_defs)
  have fails: "auth_resetPassword env_provider_fails (email member_regular) = Throws ?err"
    by (simp add: example_defs)
  from handlePasswordReset_calls_and_errors [of member_without_email env_accepting] none
  have a: "handlePasswordReset member_without_email env_accepting =
     [Toast \<lparr>title = ''Error'', description = ''No email address found for your account'',
        variant = Some Destructive\<rparr>]"
    by blast
  from handlePasswordReset_calls_and_errors [of member_regular env_accepting] some
  have b: "Call_auth_resetPassword ''old.address@mail.org''
      \<in> set (handlePasswordReset member_regular env_accepting)"
    by simp
  from handlePasswordReset_calls_and_errors [of member_regular env_provider_fails ?err] some fails
  have c: "handlePasswordReset member_regular env_provider_fails =
     [SetPasswordResetLoading True, Call_auth_resetPassword ''old.address@mail.org'',
      Console (Password_reset_error ?err),
      Toast \<lparr>title = ''Error'', description = ''Email address not found. Please contact support.'',
        variant = Some Destructive\<rparr>,
      SetPasswordResetLoading False]"
    by (simp add: includes_str_def)
  from none some(1) fails a b c show ?thesis by simp
qed

text \<open>
  C7. \<open>handleEmailUpdate\<close> validates before any call: when the new email is empty or
  equal to the current one, or fails the regular expression, the handler shows one
  destructive toast (\<open>Please enter a new email address\<close>, respectively
  \<open>Please enter a valid email address\<close>) and returns; it calls neither
  \<^verbatim>\<open>db.members.update\<close> nor \<^verbatim>\<open>auth.updateEmail\<close> nor \<^verbatim>\<open>resetPasswordForEmail\<close>,
  and leaves \<open>emailUpdateStatus\<close> and \<open>newEmail\<close> as they were.
\<close>

theorem handleEmailUpdate_rejects_before_any_call:
  assumes "newEmail st = [] \<or> newEmail st = email m \<or> \<not> test emailRegex (newEmail st)"
  shows "handleEmailUpdate m w st =
           [Toast \<lparr>title = ''Error'',
              description = (if newEmail st = [] \<or> newEmail st = email m
                then ''Please enter a new email address''
                else ''Please enter a valid email address''),
              variant = Some Destructive\<rparr>] \<and>
         (\<forall>i e. Call_db_members_update i e \<notin> set (handleEmailUpdate m w st)) \<and>
         (\<forall>e. Call_auth_updateEmail e \<notin> set (handleEmailUpdate m w st)) \<and>
         (\<forall>e r. Call_resetPasswordForEmail e r \<notin> set (handleEmailUpdate m w st)) \<and>
         emailUpdateStatus (state_after st (handleEmailUpdate m w st)) = emailUpdateStatus st \<and>
         newEmail (state_after st (handleEmailUpdate m w st)) = newEmail st"
  using assms by (auto simp add: handleEmailUpdate_def error_toast_def state_after_def)

theorem handleEmailUpdate_rejects_before_any_call_witness:
  "newEmail initial_state = [] \<and>
   \<not> test emailRegex (newEmail (state_typed ''john.doe@mail'')) \<and>
   newEmail (state_typed ''john.doe@mail'') \<noteq> [] \<and>
   newEmail (state_typed ''john.doe@mail'') \<noteq> email member_regular \<and>
   handleEmailUpdate member_regular env_accepting initial_state =
     [Toast \<lparr>title = ''Error'', description = ''Please enter a new email address'',
        variant = Some Destructive\<rparr>] \<and>
   handleEmailUpdate member_regular env_accepting (state_typed ''john.doe@mail'') =
     [Toast \<lparr>title = ''Error'', description = ''Please enter a valid email address'',
        variant = Some Destructive\<rparr>] \<and>
   newEmail (state_after (state_typed ''john.doe@mail'')
      (handleEmailUpdate member_regular env_accepting (state_typed ''john.doe@mail''))) =
     newEmail (state_typed ''john.doe@mail'')"
proof -
  let ?st = "state_typed ''john.doe@mail''"
  have empty: "newEmail initial_state = []"
    by (simp add: initial_state_def)
  have bad: "\<not> test emailRegex (newEmail ?st)"
    by (simp add: state_typed_def re_defs)
  have other: "newEmail ?st \<noteq> []" "newEmail ?st \<noteq> email member_regular"
    by (simp_all add: example_defs)
  have hyp1: "newEmail initial_state = [] \<or> newEmail initial_state = email member_regular \<or>
      \<not> test emailRegex (newEmail initial_state)"
    using empty by blast
  have hyp2: "newEmail ?st = [] \<or> newEmail ?st = email member_regular \<or>
      \<not> test emailRegex (newEmail ?st)"
    using bad by blast
  note first = handleEmailUpdate_rejects_before_any_call [OF hyp1, of env_accepting]
  note second = handleEmailUpdate_rejects_before_any_call [OF hyp2, of env_accepting]
  from first have a: "handleEmailUpdate member_regular env_accepting initial_state =
     [Toast \<lparr>title = ''Error'', description = ''Please enter a new email address'',
        variant = Some Destructive\<rparr>]"
    using empty by simp
  from second have b: "handleEmailUpdate member_regular env_accepting ?st =
     [Toast \<lparr>title = ''Error'', description = ''Please enter a valid email address'',
        variant = Some Destructive\<rparr>]"
    using other by simp
  from second have c: "newEmail (state_after ?st (handleEmailUpdate member_regular env_accepting ?st)) =
      newEmail ?st"
    by blast
  from empty bad other a b c show ?thesis by blast
qed

text \<open>
  C8. For every string, \<open>isTemporaryEmail\<close> is true if and only if
  \<open>extractMemberIdFromTempEmail\<close> returns a value, which is then the non-empty digit
  prefix of the string. Hence for a member whose current email is temporary the guard
  \<^verbatim>\<open>!tempMemberId\<close> is false: the \<^verbatim>\<open>try\<close> block never throws
  \<open>Could not extract member ID from temporary email\<close> and the handler never shows the
  toast for it.
\<close>

theorem extract_iff_temporary_and_throw_unreachable:
  "(isTemporaryEmail s \<longleftrightarrow> extractMemberIdFromTempEmail s \<noteq> None) \<and>
   (\<forall>d. extractMemberIdFromTempEmail s = Some d \<longrightarrow>
      d \<noteq> [] \<and> d = takeWhile (\<lambda>c. c \<in> set ''0123456789'') s) \<and>
   (isTemporaryEmail (email m) \<longrightarrow>
      \<not> falsy (extractMemberIdFromTempEmail (email m)) \<and>
      snd (email_update_try m w e) \<noteq>
        Some (Error (Some ''Could not extract member ID from temporary email'')) \<and>
      error_toast ''Could not process temporary email. Please contact support.''
        \<notin> set (handleEmailUpdate m w st))"
proof (intro conjI allI impI)
  show "isTemporaryEmail s \<longleftrightarrow> extractMemberIdFromTempEmail s \<noteq> None"
  proof
    assume "isTemporaryEmail s"
    then show "extractMemberIdFromTempEmail s \<noteq> None"
      using temporary_not_falsy [of s] by (auto simp add: falsy_def split: option.splits)
  next
    assume "extractMemberIdFromTempEmail s \<noteq> None"
    then obtain d where "extractMemberIdFromTempEmail s = Some d" by blast
    then show "isTemporaryEmail s"
      unfolding extract_Some_iff isTemporaryEmail_iff by blast
  qed
next
  fix d assume "extractMemberIdFromTempEmail s = Some d"
  then have d: "d \<noteq> []" "set d \<subseteq> set ''0123456789''" "s = d @ ''@gmail.com''"
    by (simp_all add: extract_Some_iff)
  then show "d \<noteq> []" by simp
  from d show "d = takeWhile (\<lambda>c. c \<in> set ''0123456789'') s"
    using digit_prefix [of d] by simp
next
  assume temp: "isTemporaryEmail (email m)"
  then show "\<not> falsy (extractMemberIdFromTempEmail (email m))"
    by (rule temporary_not_falsy)
  show "snd (email_update_try m w e) \<noteq>
      Some (Error (Some ''Could not extract member ID from temporary email''))"
    using try_throws_when_temporary [OF temp, of w e] by auto
  show "error_toast ''Could not process temporary email. Please contact support.''
      \<notin> set (handleEmailUpdate m w st)"
    using error_toasts_when_temporary [OF temp, of _ w st] by fastforce
qed

theorem extract_iff_temporary_and_throw_unreachable_witness:
  "isTemporaryEmail (email member_temporary) \<and>
   extractMemberIdFromTempEmail ''12345@gmail.com'' = Some ''12345'' \<and>
   ''12345'' = takeWhile (\<lambda>c. c \<in> set ''0123456789'') ''12345@gmail.com'' \<and>
   \<not> falsy (extractMemberIdFromTempEmail (email member_temporary)) \<and>
   snd (email_update_try member_temporary env_database_rejects ''john.doe@mail.org'') \<noteq>
     Some (Error (Some ''Could not extract member ID from temporary email'')) \<and>
   error_toast ''Could not process temporary email. Please contact support.''
     \<notin> set (handleEmailUpdate member_temporary env_database_rejects (state_typed ''john.doe@mail.org''))"
proof -
  note claim = extract_iff_temporary_and_throw_unreachable [of "''12345@gmail.com''"
      member_temporary env_database_rejects "''john.doe@mail.org''" "state_typed ''john.doe@mail.org''"]
  have temp: "isTemporaryEmail (email member_temporary)"
    by (simp add: member_temporary_def isTemporaryEmail_def re_defs)
  have extracted: "extractMemberIdFromTempEmail ''12345@gmail.com'' = Some ''12345''"
    by (simp add: extractMemberIdFromTempEmail_def match_group1_def re_defs)
  from claim extracted have prefix: "''12345'' = takeWhile (\<lambda>c. c \<in> set ''0123456789'') ''12345@gmail.com''"
    by blast
  from claim temp have rest: "\<not> falsy (extractMemberIdFromTempEmail (email member_temporary)) \<and>
      snd (email_update_try member_temporary env_database_rejects ''john.doe@mail.org'') \<noteq>
        Some (Error (Some ''Could not extract member ID from temporary email'')) \<and>
      error_toast ''Could not process temporary email. Please contact support.''
        \<notin> set (handleEmailUpdate member_temporary env_database_rejects (state_typed ''john.doe@mail.org''))"
    by blast
  from temp extracted prefix rest show ?thesis by blast
qed

text \<open>
  C9. For a member whose current email is temporary the handler never shows
  \<open>This email address is already in use. Please choose a different email.\<close>: every
  failure of \<^verbatim>\<open>db.members.update\<close> (thrown or returned, whatever its message) is
  re-thrown as \<open>Failed to update email in database\<close>, and the toast is
  \<open>Database update failed. Please contact support.\<close>
\<close>

theorem database_failure_never_reports_email_in_use:
  assumes "isTemporaryEmail (email m)"
  shows "error_toast ''This email address is already in use. Please choose a different email.''
           \<notin> set (handleEmailUpdate m w st) \<and>
         (test emailRegex (newEmail st) \<and> newEmail st \<noteq> email m \<and>
          (db_members_update w (id_m m) (newEmail st) = Throws err \<or>
           db_members_update w (id_m m) (newEmail st) = Returns (um, Some err)) \<longrightarrow>
            handleEmailUpdate m w st =
              [SetEmailUpdateLoading True, SetEmailUpdateStatus Idle,
               Console Handling_temporary_email_update,
               Console (Extracted_member_id (extractMemberIdFromTempEmail (email m))),
               Call_db_members_update (id_m m) (newEmail st),
               Console (Database_update_failed err),
               Console (Email_update_error (Error (Some ''Failed to update email in database''))),
               SetEmailUpdateStatus Failed,
               Toast \<lparr>title = ''Error'',
                 description = ''Database update failed. Please contact support.'',
                 variant = Some Destructive\<rparr>,
               SetEmailUpdateLoading False])"
    (is "?never \<and> (?fails \<longrightarrow> ?run)")
proof (intro conjI impI)
  show ?never
    using error_toasts_when_temporary [OF assms, of _ w st] by fastforce
next
  assume fails: ?fails
  then have tr: "email_update_try m w (newEmail st) =
     ([Console Handling_temporary_email_update,
       Console (Extracted_member_id (extractMemberIdFromTempEmail (email m))),
       Call_db_members_update (id_m m) (newEmail st), Console (Database_update_failed err)],
      Some (Error (Some ''Failed to update email in database'')))"
    using try_when_database_update_fails [OF assms] by blast
  from fails show ?run
    by (simp add: handleEmailUpdate_proceeds tr email_update_catch_def error_toast_def
        database_failure_message [OF assms])
qed

theorem database_failure_never_reports_email_in_use_witness:
  "isTemporaryEmail (email member_temporary) \<and>
   test emailRegex (newEmail (state_typed ''john.doe@mail.org'')) \<and>
   newEmail (state_typed ''john.doe@mail.org'') \<noteq> email member_temporary \<and>
   db_members_update env_database_rejects (id_m member_temporary) (newEmail (state_typed ''john.doe@mail.org'')) =
     Returns (None, Some (Error (Some ''duplicate key value: email already exists''))) \<and>
   error_toast ''This email address is already in use. Please choose a different email.''
     \<notin> set (handleEmailUpdate member_temporary env_database_rejects (state_typed ''john.doe@mail.org'')) \<and>
   handleEmailUpdate member_temporary env_database_rejects (state_typed ''john.doe@mail.org'') =
     [SetEmailUpdateLoading True, SetEmailUpdateStatus Idle,
      Console Handling_temporary_email_update, Console (Extracted_member_id (Some ''12345'')),
      Call_db_members_update ''7f3a'' ''john.doe@mail.org'',
      Console (Database_update_failed (Error (Some ''duplicate key value: email already exists''))),
      Console (Email_update_error (Error (Some ''Failed to update email in database''))),
      SetEmailUpdateStatus Failed,
      Toast \<lparr>title = ''Error'',
        description = ''Database update failed. Please contact support.'',
        variant = Some Destructive\<rparr>,
      SetEmailUpdateLoading False]"
proof -
  let ?st = "state_typed ''john.doe@mail.org''"
  let ?err = "Error (Some ''duplicate key value: email already exists'')"
  have temp: "isTemporaryEmail (email member_temporary)"
    by (simp add: member_temporary_def isTemporaryEmail_def re_defs)
  have valid: "test emailRegex (newEmail ?st)"
    by (simp add: state_typed_def re_defs)
  have other: "newEmail ?st \<noteq> email member_temporary"
    by (simp add: example_defs)
  have fails: "db_members_update env_database_rejects (id_m member_temporary) (newEmail ?st) =
      Returns (None, Some ?err)"
    by (simp add: example_defs)
  have extracted: "extractMemberIdFromTempEmail (email member_temporary) = Some ''12345''"
    by (simp add: member_temporary_def extractMemberIdFromTempEmail_def match_group1_def re_defs)
  have names: "id_m member_temporary = ''7f3a''" "newEmail ?st = ''john.doe@mail.org''"
    by (simp_all add: example_defs)
  note claim = database_failure_never_reports_email_in_use [OF temp, of env_database_rejects ?st ?err None]
  from claim have never: "error_toast ''This email address is already in use. Please choose a different email.''
      \<notin> set (handleEmailUpdate member_temporary env_database_rejects ?st)"
    by blast
  from claim valid other fails have run: "handleEmailUpdate member_temporary env_database_rejects ?st =
     [SetEmailUpdateLoading True, SetEmailUpdateStatus Idle,
      Console Handling_temporary_email_update,
      Console (Extracted_member_id (extractMemberIdFromTempEmail (email member_temporary))),
      Call_db_members_update (id_m member_temporary) (newEmail ?st),
      Console (Database_update_failed ?err),
      Console (Email_update_error (Error (Some ''Failed to update email in database''))),
      SetEmailUpdateStatus Failed,
      Toast \<lparr>title = ''Error'',
        description = ''Database update failed. Please contact support.'',
        variant = Some Destructive\<rparr>,
      SetEmailUpdateLoading False]"
    by blast
  from temp valid other fails never run show ?thesis
    by (simp only: extracted names simp_thms)
qed

text \<open>
  C10. In the path of a temporary email, after \<^verbatim>\<open>db.members.update\<close> has succeeded,
  a failure of \<^verbatim>\<open>supabase.auth.resetPasswordForEmail\<close> (thrown or returned) is only
  written to the console: the status is still set to \<^verbatim>\<open>'pending'\<close> and the toast
  saying that a password setup email has been sent is still shown. When the parent's
  callback returns, the run ends in the status \<^verbatim>\<open>'pending'\<close> with no error toast.
\<close>

theorem reset_failure_swallowed:
  assumes valid: "test emailRegex (newEmail st)" "newEmail st \<noteq> email m"
    and temp: "isTemporaryEmail (email m)"
    and ok: "db_members_update w (id_m m) (newEmail st) = Returns (um, None)"
    and fails:
      "supabase_auth_resetPasswordForEmail w (newEmail st) (origin w @ ''/reset-password'') = Throws err \<or>
       supabase_auth_resetPasswordForEmail w (newEmail st) (origin w @ ''/reset-password'') = Returns (Some err)"
  shows "SetEmailUpdateStatus Pending \<in> set (handleEmailUpdate m w st) \<and>
         Toast \<lparr>title = ''Email Updated Successfully'',
           description = ''Your email has been updated to '' @ newEmail st @
             ''. A password setup email has been sent to your new address. Please check your inbox and follow the instructions to complete the setup.'',
           variant = None\<rparr> \<in> set (handleEmailUpdate m w st) \<and>
         (Console (Reset_setup_failed err) \<in> set (handleEmailUpdate m w st) \<or>
          Console (Password_reset_failed (message err)) \<in> set (handleEmailUpdate m w st)) \<and>
         (um = None \<or> (\<exists>u. um = Some u \<and> onMemberUpdate w u = Returns ()) \<longrightarrow>
            emailUpdateStatus (state_after st (handleEmailUpdate m w st)) = Pending \<and>
            updatedEmail (state_after st (handleEmailUpdate m w st)) = newEmail st \<and>
            (\<forall>d. error_toast d \<notin> set (handleEmailUpdate m w st)))"
proof -
  let ?e = "newEmail st"
  let ?run = "handleEmailUpdate m w st"
  obtain entry rest where
    entry: "entry = Reset_setup_failed err \<or> entry = Password_reset_failed (message err)" and
    evs: "fst (database_update_try m w ?e) =
       [Call_db_members_update (id_m m) ?e, Console (Member_email_updated um),
        Call_resetPasswordForEmail ?e (origin w @ ''/reset-password''), Console entry,
        SetEmailUpdateStatus Pending, SetUpdatedEmail ?e, email_updated_toast ?e] @ rest" and
    fine: "um = None \<or> (\<exists>u. um = Some u \<and> onMemberUpdate w u = Returns ()) \<longrightarrow>
       database_update_try m w ?e =
         ([Call_db_members_update (id_m m) ?e, Console (Member_email_updated um),
           Call_resetPasswordForEmail ?e (origin w @ ''/reset-password''), Console entry,
           SetEmailUpdateStatus Pending, SetUpdatedEmail ?e, email_updated_toast ?e] @
          (case um of None \<Rightarrow> [] | Some u \<Rightarrow> [Call_onMemberUpdate u]), None)"
    using database_update_try_reset_fails [OF ok fails] by blast
  have sub: "set (fst (database_update_try m w ?e)) \<subseteq> set ?run"
    using database_try_events_in_try [OF temp, of w ?e] try_events_in_handler [OF valid, of w]
    by blast
  have pending: "SetEmailUpdateStatus Pending \<in> set ?run"
    using sub by (simp add: evs)
  have shown: "email_updated_toast ?e \<in> set ?run"
    using sub by (simp add: evs)
  have logged: "Console entry \<in> set ?run"
    using sub by (simp add: evs)
  have final: "emailUpdateStatus (state_after st ?run) = Pending \<and>
      updatedEmail (state_after st ?run) = ?e \<and> (\<forall>d. error_toast d \<notin> set ?run)"
    if "um = None \<or> (\<exists>u. um = Some u \<and> onMemberUpdate w u = Returns ())"
  proof -
    from that fine have tr: "database_update_try m w ?e =
         ([Call_db_members_update (id_m m) ?e, Console (Member_email_updated um),
           Call_resetPasswordForEmail ?e (origin w @ ''/reset-password''), Console entry,
           SetEmailUpdateStatus Pending, SetUpdatedEmail ?e, email_updated_toast ?e] @
          (case um of None \<Rightarrow> [] | Some u \<Rightarrow> [Call_onMemberUpdate u]), None)"
      by blast
    show ?thesis
      by (cases um)
        (simp_all add: handleEmailUpdate_proceeds [OF valid] try_when_temporary [OF temp] tr
          state_after_def error_toast_def email_updated_toast_def)
  qed
  from pending shown logged entry final show ?thesis
    by (auto simp add: email_updated_toast_def)
qed

theorem reset_failure_swallowed_witness:
  "test emailRegex (newEmail (state_typed ''john.doe@mail.org'')) \<and>
   newEmail (state_typed ''john.doe@mail.org'') \<noteq> email member_temporary \<and>
   isTemporaryEmail (email member_temporary) \<and>
   db_members_update env_reset_fails (id_m member_temporary) (newEmail (state_typed ''john.doe@mail.org'')) =
     Returns (Some (member_temporary\<lparr>email := ''john.doe@mail.org''\<rparr>), None) \<and>
   supabase_auth_resetPasswordForEmail env_reset_fails (newEmail (state_typed ''john.doe@mail.org''))
       (origin env_reset_fails @ ''/reset-password'') =
     Returns (Some (Error (Some ''Error sending recovery email''))) \<and>
   onMemberUpdate env_reset_fails (member_temporary\<lparr>email := ''john.doe@mail.org''\<rparr>) = Returns () \<and>
   SetEmailUpdateStatus Pending
     \<in> set (handleEmailUpdate member_temporary env_reset_fails (state_typed ''john.doe@mail.org'')) \<and>
   Toast \<lparr>title = ''Email Updated Successfully'',
      description = ''Your email has been updated to john.doe@mail.org. A password setup email has been sent to your new address. Please check your inbox and follow the instructions to complete the setup.'',
      variant = None\<rparr>
     \<in> set (handleEmailUpdate member_temporary env_reset_fails (state_typed ''john.doe@mail.org'')) \<and>
   emailUpdateStatus (state_after (state_typed ''john.doe@mail.org'')
      (handleEmailUpdate member_temporary env_reset_fails (state_typed ''john.doe@mail.org''))) = Pending"
proof -
  let ?st = "state_typed ''john.doe@mail.org''"
  let ?err = "Error (Some ''Error sending recovery email'')"
  let ?um = "member_temporary\<lparr>email := ''john.doe@mail.org''\<rparr>"
  have valid: "test emailRegex (newEmail ?st)"
    by (simp add: state_typed_def re_defs)
  have other: "newEmail ?st \<noteq> email member_temporary"
    by (simp add: example_defs)
  have temp: "isTemporaryEmail (email member_temporary)"
    by (simp add: member_temporary_def isTemporaryEmail_def re_defs)
  have ok: "db_members_update env_reset_fails (id_m member_temporary) (newEmail ?st) =
      Returns (Some ?um, None)"
    by (simp add: example_defs)
  have fails: "supabase_auth_resetPasswordForEmail env_reset_fails (newEmail ?st)
      (origin env_reset_fails @ ''/reset-password'') = Returns (Some ?err)"
    by (simp add: example_defs)
  then have fails': "supabase_auth_resetPasswordForEmail env_reset_fails (newEmail ?st)
        (origin env_reset_fails @ ''/reset-password'') = Throws ?err \<or>
      supabase_auth_resetPasswordForEmail env_reset_fails (newEmail ?st)
        (origin env_reset_fails @ ''/reset-password'') = Returns (Some ?err)"
    by simp
  have parent: "onMemberUpdate env_reset_fails ?um = Returns ()"
    by (simp add: example_defs)
  then have parent': "Some ?um = None \<or> (\<exists>u. Some ?um = Some u \<and> onMemberUpdate env_reset_fails u = Returns ())"
    by simp
  note claim = reset_failure_swallowed [OF valid other temp ok fails']
  from claim have pending: "SetEmailUpdateStatus Pending
      \<in> set (handleEmailUpdate member_temporary env_reset_fails ?st)"
    by blast
  from claim have "Toast \<lparr>title = ''Email Updated Successfully'',
      description = ''Your email has been updated to '' @ newEmail ?st @
        ''. A password setup email has been sent to your new address. Please check your inbox and follow the instructions to complete the setup.'',
      variant = None\<rparr> \<in> set (handleEmailUpdate member_temporary env_reset_fails ?st)"
    by blast
  then have shown: "Toast \<lparr>title = ''Email Updated Successfully'',
      description = ''Your email has been updated to john.doe@mail.org. A password setup email has been sent to your new address. Please check your inbox and follow the instructions to complete the setup.'',
      variant = None\<rparr> \<in> set (handleEmailUpdate member_temporary env_reset_fails ?st)"
    by (simp add: state_typed_def)
  from claim parent' have final: "emailUpdateStatus (state_after ?st
      (handleEmailUpdate member_temporary env_reset_fails ?st)) = Pending"
    by blast
  from valid other temp ok fails parent pending shown final show ?thesis by blast
qed

end
